theory Spec2Isabelle
  imports Main "HOL-Library.Word"
begin

unbundle bit_operations_syntax

section \<open>Rational values with NaN and infinities (isl\_val.c)\<close>

text \<open>
  A value is the pair of arbitrary-precision integers \<open>v->n\<close> and \<open>v->d\<close> of
  \<open>struct isl_val\<close>; the fields are called \<open>val_n\<close> and \<open>val_d\<close> here.
  A pointer to a value is an \<open>isl_val option\<close>, \<open>None\<close> being \<open>NULL\<close>.
  Reference counts and copy-on-write are not part of the model: a value is immutable,
  which is what \<open>isl_val_cow\<close> guarantees to every caller.  Failure of
  \<open>isl_val_alloc\<close> (out of memory) is not modelled.
\<close>

record isl_val =
  val_n :: int
  val_d :: int

text \<open>The result of a C comparison or logical operator as an \<open>int\<close>.\<close>

definition c_int :: "bool \<Rightarrow> int" where
  "c_int b = (if b then 1 else 0)"

subsection \<open>Big-integer primitives used by the value operations\<close>

text \<open>
  \<open>isl_int_fdiv_q\<close> and \<open>isl_int_fdiv_r\<close> round the quotient towards minus
  infinity, which is what \<open>div\<close> and \<open>mod\<close> on \<open>int\<close> do for a non-zero divisor;
  \<open>isl_int_cdiv_q\<close> rounds up and \<open>isl_int_tdiv_q\<close> towards zero.
\<close>

definition isl_int_fdiv_q :: "int \<Rightarrow> int \<Rightarrow> int" where
  "isl_int_fdiv_q a b = a div b"

definition isl_int_fdiv_r :: "int \<Rightarrow> int \<Rightarrow> int" where
  "isl_int_fdiv_r a b = a mod b"

definition isl_int_cdiv_q :: "int \<Rightarrow> int \<Rightarrow> int" where
  "isl_int_cdiv_q a b = - ((- a) div b)"

definition isl_int_tdiv_q :: "int \<Rightarrow> int \<Rightarrow> int" where
  "isl_int_tdiv_q a b =
     (if (a < 0) = (b < 0) then \<bar>a\<bar> div \<bar>b\<bar> else - (\<bar>a\<bar> div \<bar>b\<bar>))"

definition isl_int_divexact :: "int \<Rightarrow> int \<Rightarrow> int" where
  "isl_int_divexact a b = a div b"

subsection \<open>Constructors\<close>

definition isl_val_nan :: "isl_val option" where
  "isl_val_nan = Some \<lparr>val_n = 0, val_d = 0\<rparr>"

definition isl_val_infty :: "isl_val option" where
  "isl_val_infty = Some \<lparr>val_n = 1, val_d = 0\<rparr>"

definition isl_val_neginfty :: "isl_val option" where
  "isl_val_neginfty = Some \<lparr>val_n = - 1, val_d = 0\<rparr>"

definition isl_val_int_from_si :: "int \<Rightarrow> isl_val option" where
  "isl_val_int_from_si i = Some \<lparr>val_n = i, val_d = 1\<rparr>"

definition isl_val_zero :: "isl_val option" where
  "isl_val_zero = isl_val_int_from_si 0"

definition isl_val_one :: "isl_val option" where
  "isl_val_one = isl_val_int_from_si 1"

text \<open>The argument is an \<open>unsigned long\<close>, of whatever width the platform has.\<close>

definition isl_val_int_from_ui :: "'a::len word \<Rightarrow> isl_val option" where
  "isl_val_int_from_ui u = Some \<lparr>val_n = uint u, val_d = 1\<rparr>"

definition isl_val_int_from_isl_int :: "int \<Rightarrow> isl_val option" where
  "isl_val_int_from_isl_int i = Some \<lparr>val_n = i, val_d = 1\<rparr>"

text \<open>Normalizing the result (if needed) is left to the caller.\<close>

definition isl_val_rat_from_isl_int :: "int \<Rightarrow> int \<Rightarrow> isl_val option" where
  "isl_val_rat_from_isl_int i j = Some \<lparr>val_n = i, val_d = j\<rparr>"

subsection \<open>Predicates\<close>

text \<open>Each predicate returns \<open>-1\<close> on \<open>NULL\<close> and otherwise the C truth value.\<close>

definition isl_val_is_int :: "isl_val option \<Rightarrow> int" where
  "isl_val_is_int p = (case p of None \<Rightarrow> - 1 | Some v \<Rightarrow> c_int (val_d v = 1))"

definition isl_val_is_rat :: "isl_val option \<Rightarrow> int" where
  "isl_val_is_rat p = (case p of None \<Rightarrow> - 1 | Some v \<Rightarrow> c_int (\<not> val_d v = 0))"

definition isl_val_is_nan :: "isl_val option \<Rightarrow> int" where
  "isl_val_is_nan p =
     (case p of None \<Rightarrow> - 1 | Some v \<Rightarrow> c_int (val_n v = 0 \<and> val_d v = 0))"

definition isl_val_is_infty :: "isl_val option \<Rightarrow> int" where
  "isl_val_is_infty p =
     (case p of None \<Rightarrow> - 1 | Some v \<Rightarrow> c_int (0 < val_n v \<and> val_d v = 0))"

definition isl_val_is_neginfty :: "isl_val option \<Rightarrow> int" where
  "isl_val_is_neginfty p =
     (case p of None \<Rightarrow> - 1 | Some v \<Rightarrow> c_int (val_n v < 0 \<and> val_d v = 0))"

definition isl_val_is_zero :: "isl_val option \<Rightarrow> int" where
  "isl_val_is_zero p =
     (case p of None \<Rightarrow> - 1 | Some v \<Rightarrow> c_int (val_n v = 0 \<and> \<not> val_d v = 0))"

definition isl_val_is_one :: "isl_val option \<Rightarrow> int" where
  "isl_val_is_one p = (case p of None \<Rightarrow> - 1 | Some v \<Rightarrow> c_int (val_n v = val_d v))"

definition isl_val_is_negone :: "isl_val option \<Rightarrow> int" where
  "isl_val_is_negone p =
     (case p of None \<Rightarrow> - 1
      | Some v \<Rightarrow> c_int (val_n v < 0 \<and> \<bar>val_n v\<bar> = \<bar>val_d v\<bar>))"

definition isl_val_is_pos :: "isl_val option \<Rightarrow> int" where
  "isl_val_is_pos p = (case p of None \<Rightarrow> - 1 | Some v \<Rightarrow> c_int (0 < val_n v))"

definition isl_val_is_neg :: "isl_val option \<Rightarrow> int" where
  "isl_val_is_neg p = (case p of None \<Rightarrow> - 1 | Some v \<Rightarrow> c_int (val_n v < 0))"

definition isl_val_is_nonneg :: "isl_val option \<Rightarrow> int" where
  "isl_val_is_nonneg p =
     (case p of None \<Rightarrow> - 1
      | Some v \<Rightarrow> if isl_val_is_nan p \<noteq> 0 then 0 else c_int (0 \<le> val_n v))"

definition isl_val_is_nonpos :: "isl_val option \<Rightarrow> int" where
  "isl_val_is_nonpos p =
     (case p of None \<Rightarrow> - 1
      | Some v \<Rightarrow> if isl_val_is_nan p \<noteq> 0 then 0 else c_int (val_n v \<le> 0))"

definition isl_val_sgn :: "isl_val option \<Rightarrow> int" where
  "isl_val_sgn p =
     (case p of None \<Rightarrow> 0
      | Some v \<Rightarrow> if isl_val_is_zero p \<noteq> 0 then 0
                  else if isl_val_is_pos p \<noteq> 0 then 1 else - 1)"

definition isl_val_eq :: "isl_val option \<Rightarrow> isl_val option \<Rightarrow> int" where
  "isl_val_eq p1 p2 =
     (case (p1, p2) of
        (Some v1, Some v2) \<Rightarrow>
          if isl_val_is_nan p1 \<noteq> 0 \<or> isl_val_is_nan p2 \<noteq> 0 then 0
          else c_int (val_n v1 = val_n v2 \<and> val_d v1 = val_d v2)
      | _ \<Rightarrow> - 1)"

definition isl_val_ne :: "isl_val option \<Rightarrow> isl_val option \<Rightarrow> int" where
  "isl_val_ne p1 p2 =
     (case (p1, p2) of
        (Some v1, Some v2) \<Rightarrow>
          if isl_val_is_nan p1 \<noteq> 0 \<or> isl_val_is_nan p2 \<noteq> 0 then 0
          else c_int (val_n v1 \<noteq> val_n v2 \<or> val_d v1 \<noteq> val_d v2)
      | _ \<Rightarrow> - 1)"

definition isl_val_lt :: "isl_val option \<Rightarrow> isl_val option \<Rightarrow> int" where
  "isl_val_lt p1 p2 =
     (case (p1, p2) of
        (Some v1, Some v2) \<Rightarrow>
          if isl_val_is_int p1 \<noteq> 0 \<and> isl_val_is_int p2 \<noteq> 0
            then c_int (val_n v1 < val_n v2)
          else if isl_val_is_nan p1 \<noteq> 0 \<or> isl_val_is_nan p2 \<noteq> 0 then 0
          else if isl_val_eq p1 p2 \<noteq> 0 then 0
          else if isl_val_is_infty p2 \<noteq> 0 then 1
          else if isl_val_is_infty p1 \<noteq> 0 then 0
          else if isl_val_is_neginfty p1 \<noteq> 0 then 1
          else if isl_val_is_neginfty p2 \<noteq> 0 then 0
          else c_int (val_n v1 * val_d v2 - val_n v2 * val_d v1 < 0)
      | _ \<Rightarrow> - 1)"

definition isl_val_gt :: "isl_val option \<Rightarrow> isl_val option \<Rightarrow> int" where
  "isl_val_gt p1 p2 = isl_val_lt p2 p1"

definition isl_val_le :: "isl_val option \<Rightarrow> isl_val option \<Rightarrow> int" where
  "isl_val_le p1 p2 =
     (case (p1, p2) of
        (Some v1, Some v2) \<Rightarrow>
          if isl_val_is_int p1 \<noteq> 0 \<and> isl_val_is_int p2 \<noteq> 0
            then c_int (val_n v1 \<le> val_n v2)
          else if isl_val_is_nan p1 \<noteq> 0 \<or> isl_val_is_nan p2 \<noteq> 0 then 0
          else if isl_val_eq p1 p2 \<noteq> 0 then 1
          else if isl_val_is_infty p2 \<noteq> 0 then 1
          else if isl_val_is_infty p1 \<noteq> 0 then 0
          else if isl_val_is_neginfty p1 \<noteq> 0 then 1
          else if isl_val_is_neginfty p2 \<noteq> 0 then 0
          else c_int (val_n v1 * val_d v2 - val_n v2 * val_d v1 \<le> 0)
      | _ \<Rightarrow> - 1)"

definition isl_val_ge :: "isl_val option \<Rightarrow> isl_val option \<Rightarrow> int" where
  "isl_val_ge p1 p2 = isl_val_le p2 p1"

subsection \<open>Setting and normalizing\<close>

definition isl_val_set_nan :: "isl_val option \<Rightarrow> isl_val option" where
  "isl_val_set_nan p =
     (case p of None \<Rightarrow> None
      | Some v \<Rightarrow> if isl_val_is_nan p \<noteq> 0 then p
                  else Some (v\<lparr>val_n := 0, val_d := 0\<rparr>))"

definition isl_val_set_si :: "isl_val option \<Rightarrow> int \<Rightarrow> isl_val option" where
  "isl_val_set_si p i =
     (case p of None \<Rightarrow> None
      | Some v \<Rightarrow> if isl_val_is_int p \<noteq> 0 \<and> val_n v = i then p
                  else Some (v\<lparr>val_n := i, val_d := 1\<rparr>))"

definition isl_val_set_zero :: "isl_val option \<Rightarrow> isl_val option" where
  "isl_val_set_zero p = isl_val_set_si p 0"

definition isl_val_normalize :: "isl_val option \<Rightarrow> isl_val option" where
  "isl_val_normalize p =
     (case p of None \<Rightarrow> None
      | Some v \<Rightarrow>
          if isl_val_is_int p \<noteq> 0 then p
          else if \<not> isl_val_is_rat p \<noteq> 0 then p
          else
            let v1 = (if val_d v < 0 then v\<lparr>val_d := - val_d v, val_n := - val_n v\<rparr> else v);
                g = gcd (val_n v1) (val_d v1)
            in if g = 1 then Some v1
               else Some (v1\<lparr>val_n := isl_int_divexact (val_n v1) g,
                              val_d := isl_int_divexact (val_d v1) g\<rparr>))"

subsection \<open>Unary arithmetic\<close>

definition isl_val_neg :: "isl_val option \<Rightarrow> isl_val option" where
  "isl_val_neg p =
     (case p of None \<Rightarrow> None
      | Some v \<Rightarrow> if isl_val_is_nan p \<noteq> 0 then p
                  else if isl_val_is_zero p \<noteq> 0 then p
                  else Some (v\<lparr>val_n := - val_n v\<rparr>))"

definition isl_val_abs :: "isl_val option \<Rightarrow> isl_val option" where
  "isl_val_abs p =
     (case p of None \<Rightarrow> None
      | Some v \<Rightarrow> if isl_val_is_nan p \<noteq> 0 then p
                  else if isl_val_is_nonneg p \<noteq> 0 then p
                  else isl_val_neg p)"

definition isl_val_floor :: "isl_val option \<Rightarrow> isl_val option" where
  "isl_val_floor p =
     (case p of None \<Rightarrow> None
      | Some v \<Rightarrow> if isl_val_is_int p \<noteq> 0 then p
                  else if \<not> isl_val_is_rat p \<noteq> 0 then p
                  else Some (v\<lparr>val_n := isl_int_fdiv_q (val_n v) (val_d v), val_d := 1\<rparr>))"

definition isl_val_ceil :: "isl_val option \<Rightarrow> isl_val option" where
  "isl_val_ceil p =
     (case p of None \<Rightarrow> None
      | Some v \<Rightarrow> if isl_val_is_int p \<noteq> 0 then p
                  else if \<not> isl_val_is_rat p \<noteq> 0 then p
                  else Some (v\<lparr>val_n := isl_int_cdiv_q (val_n v) (val_d v), val_d := 1\<rparr>))"

definition isl_val_trunc :: "isl_val option \<Rightarrow> isl_val option" where
  "isl_val_trunc p =
     (case p of None \<Rightarrow> None
      | Some v \<Rightarrow> if isl_val_is_int p \<noteq> 0 then p
                  else if \<not> isl_val_is_rat p \<noteq> 0 then p
                  else Some (v\<lparr>val_n := isl_int_tdiv_q (val_n v) (val_d v), val_d := 1\<rparr>))"

text \<open>
  \<open>isl_val_2exp\<close>: the first argument is the number of bits of \<open>unsigned long\<close>,
  which decides \<open>isl_int_fits_ulong\<close>.  Both \<open>isl_die\<close> exits return \<open>NULL\<close>.
\<close>

definition isl_val_2exp :: "nat \<Rightarrow> isl_val option \<Rightarrow> isl_val option" where
  "isl_val_2exp ulong_bits p =
     (case p of None \<Rightarrow> None
      | Some v \<Rightarrow>
          if \<not> isl_val_is_int p \<noteq> 0 then None
          else
            let neg = isl_val_is_neg p;
                v1 = (if neg \<noteq> 0 then v\<lparr>val_n := - val_n v\<rparr> else v)
            in if \<not> (0 \<le> val_n v1 \<and> val_n v1 < 2 ^ ulong_bits) then None
               else
                 let e = nat (val_n v1)
                 in if neg \<noteq> 0 then Some (v1\<lparr>val_d := val_d v1 * 2 ^ e, val_n := 1\<rparr>)
                    else Some (v1\<lparr>val_n := val_d v1 * 2 ^ e\<rparr>))"

subsection \<open>Binary arithmetic\<close>

definition isl_val_min :: "isl_val option \<Rightarrow> isl_val option \<Rightarrow> isl_val option" where
  "isl_val_min p1 p2 =
     (case (p1, p2) of
        (Some v1, Some v2) \<Rightarrow>
          if isl_val_is_nan p1 \<noteq> 0 then p1
          else if isl_val_is_nan p2 \<noteq> 0 then p2
          else if isl_val_le p1 p2 \<noteq> 0 then p1
          else p2
      | _ \<Rightarrow> None)"

definition isl_val_max :: "isl_val option \<Rightarrow> isl_val option \<Rightarrow> isl_val option" where
  "isl_val_max p1 p2 =
     (case (p1, p2) of
        (Some v1, Some v2) \<Rightarrow>
          if isl_val_is_nan p1 \<noteq> 0 then p1
          else if isl_val_is_nan p2 \<noteq> 0 then p2
          else if isl_val_ge p1 p2 \<noteq> 0 then p1
          else p2
      | _ \<Rightarrow> None)"

definition isl_val_add :: "isl_val option \<Rightarrow> isl_val option \<Rightarrow> isl_val option" where
  "isl_val_add p1 p2 =
     (case (p1, p2) of
        (Some v1, Some v2) \<Rightarrow>
          if isl_val_is_nan p1 \<noteq> 0 then p1
          else if isl_val_is_nan p2 \<noteq> 0 then p2
          else if (isl_val_is_infty p1 \<noteq> 0 \<and> isl_val_is_neginfty p2 \<noteq> 0) \<or>
                  (isl_val_is_neginfty p1 \<noteq> 0 \<and> isl_val_is_infty p2 \<noteq> 0)
            then isl_val_set_nan p1
          else if isl_val_is_infty p1 \<noteq> 0 \<or> isl_val_is_neginfty p1 \<noteq> 0 then p1
          else if isl_val_is_infty p2 \<noteq> 0 \<or> isl_val_is_neginfty p2 \<noteq> 0 then p2
          else if isl_val_is_zero p1 \<noteq> 0 then p2
          else if isl_val_is_zero p2 \<noteq> 0 then p1
          else if isl_val_is_int p1 \<noteq> 0 \<and> isl_val_is_int p2 \<noteq> 0
            then Some (v1\<lparr>val_n := val_n v1 + val_n v2\<rparr>)
          else if val_d v1 = val_d v2
            then isl_val_normalize (Some (v1\<lparr>val_n := val_n v1 + val_n v2\<rparr>))
          else isl_val_normalize
                 (Some (v1\<lparr>val_n := val_n v1 * val_d v2 + val_n v2 * val_d v1,
                           val_d := val_d v1 * val_d v2\<rparr>))
      | _ \<Rightarrow> None)"

definition isl_val_add_ui :: "isl_val option \<Rightarrow> 'a::len word \<Rightarrow> isl_val option" where
  "isl_val_add_ui p1 v2 =
     (case p1 of None \<Rightarrow> None
      | Some v1 \<Rightarrow>
          if \<not> isl_val_is_rat p1 \<noteq> 0 then p1
          else if v2 = 0 then p1
          else Some (v1\<lparr>val_n := val_n v1 + val_d v1 * uint v2\<rparr>))"

definition isl_val_sub :: "isl_val option \<Rightarrow> isl_val option \<Rightarrow> isl_val option" where
  "isl_val_sub p1 p2 =
     (case (p1, p2) of
        (Some v1, Some v2) \<Rightarrow>
          if isl_val_is_nan p1 \<noteq> 0 then p1
          else if isl_val_is_nan p2 \<noteq> 0 then p2
          else if (isl_val_is_infty p1 \<noteq> 0 \<and> isl_val_is_infty p2 \<noteq> 0) \<or>
                  (isl_val_is_neginfty p1 \<noteq> 0 \<and> isl_val_is_neginfty p2 \<noteq> 0)
            then isl_val_set_nan p1
          else if isl_val_is_infty p1 \<noteq> 0 \<or> isl_val_is_neginfty p1 \<noteq> 0 then p1
          else if isl_val_is_infty p2 \<noteq> 0 \<or> isl_val_is_neginfty p2 \<noteq> 0
            then isl_val_neg p2
          else if isl_val_is_zero p2 \<noteq> 0 then p1
          else if isl_val_is_zero p1 \<noteq> 0 then isl_val_neg p2
          else if isl_val_is_int p1 \<noteq> 0 \<and> isl_val_is_int p2 \<noteq> 0
            then Some (v1\<lparr>val_n := val_n v1 - val_n v2\<rparr>)
          else if val_d v1 = val_d v2
            then isl_val_normalize (Some (v1\<lparr>val_n := val_n v1 - val_n v2\<rparr>))
          else isl_val_normalize
                 (Some (v1\<lparr>val_n := val_n v1 * val_d v2 - val_n v2 * val_d v1,
                           val_d := val_d v1 * val_d v2\<rparr>))
      | _ \<Rightarrow> None)"

definition isl_val_sub_ui :: "isl_val option \<Rightarrow> 'a::len word \<Rightarrow> isl_val option" where
  "isl_val_sub_ui p1 v2 =
     (case p1 of None \<Rightarrow> None
      | Some v1 \<Rightarrow>
          if \<not> isl_val_is_rat p1 \<noteq> 0 then p1
          else if v2 = 0 then p1
          else Some (v1\<lparr>val_n := val_n v1 - val_d v1 * uint v2\<rparr>))"

definition isl_val_mul :: "isl_val option \<Rightarrow> isl_val option \<Rightarrow> isl_val option" where
  "isl_val_mul p1 p2 =
     (case (p1, p2) of
        (Some v1, Some v2) \<Rightarrow>
          if isl_val_is_nan p1 \<noteq> 0 then p1
          else if isl_val_is_nan p2 \<noteq> 0 then p2
          else if (\<not> isl_val_is_rat p1 \<noteq> 0 \<and> isl_val_is_zero p2 \<noteq> 0) \<or>
                  (isl_val_is_zero p1 \<noteq> 0 \<and> \<not> isl_val_is_rat p2 \<noteq> 0)
            then isl_val_set_nan p1
          else if isl_val_is_zero p1 \<noteq> 0 then p1
          else if isl_val_is_zero p2 \<noteq> 0 then p2
          else if isl_val_is_infty p1 \<noteq> 0 \<or> isl_val_is_neginfty p1 \<noteq> 0
            then (if isl_val_is_neg p2 \<noteq> 0 then isl_val_neg p1 else p1)
          else if isl_val_is_infty p2 \<noteq> 0 \<or> isl_val_is_neginfty p2 \<noteq> 0
            then (if isl_val_is_neg p1 \<noteq> 0 then isl_val_neg p2 else p2)
          else if isl_val_is_int p1 \<noteq> 0 \<and> isl_val_is_int p2 \<noteq> 0
            then Some (v1\<lparr>val_n := val_n v1 * val_n v2\<rparr>)
          else isl_val_normalize
                 (Some (v1\<lparr>val_n := val_n v1 * val_n v2, val_d := val_d v1 * val_d v2\<rparr>))
      | _ \<Rightarrow> None)"

definition isl_val_mul_ui :: "isl_val option \<Rightarrow> 'a::len word \<Rightarrow> isl_val option" where
  "isl_val_mul_ui p1 v2 =
     (case p1 of None \<Rightarrow> None
      | Some v1 \<Rightarrow>
          if isl_val_is_nan p1 \<noteq> 0 then p1
          else if \<not> isl_val_is_rat p1 \<noteq> 0
            then (if v2 = 0 then isl_val_set_nan p1 else p1)
          else if v2 = 1 then p1
          else isl_val_normalize (Some (v1\<lparr>val_n := val_n v1 * uint v2\<rparr>)))"

definition isl_val_div :: "isl_val option \<Rightarrow> isl_val option \<Rightarrow> isl_val option" where
  "isl_val_div p1 p2 =
     (case (p1, p2) of
        (Some v1, Some v2) \<Rightarrow>
          if isl_val_is_nan p1 \<noteq> 0 then p1
          else if isl_val_is_nan p2 \<noteq> 0 then p2
          else if isl_val_is_zero p2 \<noteq> 0 \<or>
                  (\<not> isl_val_is_rat p1 \<noteq> 0 \<and> \<not> isl_val_is_rat p2 \<noteq> 0)
            then isl_val_set_nan p1
          else if isl_val_is_zero p1 \<noteq> 0 then p1
          else if isl_val_is_infty p1 \<noteq> 0 \<or> isl_val_is_neginfty p1 \<noteq> 0
            then (if isl_val_is_neg p2 \<noteq> 0 then isl_val_neg p1 else p1)
          else if isl_val_is_infty p2 \<noteq> 0 \<or> isl_val_is_neginfty p2 \<noteq> 0
            then isl_val_set_zero p1
          else if isl_val_is_int p2 \<noteq> 0
            then isl_val_normalize (Some (v1\<lparr>val_d := val_d v1 * val_n v2\<rparr>))
          else isl_val_normalize
                 (Some (v1\<lparr>val_d := val_d v1 * val_n v2, val_n := val_n v1 * val_d v2\<rparr>))
      | _ \<Rightarrow> None)"

text \<open>
  \<open>isl_val_mod\<close> and \<open>isl_val_gcd\<close> expect two integers: anything else goes
  through \<open>isl_die\<close> to the \<open>error\<close> label, which frees both arguments and
  returns \<open>NULL\<close>.  \<open>isl_int_fdiv_r\<close> by zero does not return (the big-integer
  library raises a division-by-zero fault), so the result of \<open>isl_val_mod\<close> is a sum:
  \<open>Inl DivByZero\<close> for the fault, \<open>Inr\<close> for the returned pointer.
\<close>

datatype fault = DivByZero

definition isl_val_mod :: "isl_val option \<Rightarrow> isl_val option \<Rightarrow> fault + isl_val option" where
  "isl_val_mod p1 p2 =
     (case (p1, p2) of
        (Some v1, Some v2) \<Rightarrow>
          if \<not> isl_val_is_int p1 \<noteq> 0 \<or> \<not> isl_val_is_int p2 \<noteq> 0 then Inr None
          else if isl_val_is_nonneg p1 \<noteq> 0 \<and> isl_val_lt p1 p2 \<noteq> 0 then Inr p1
          else if val_n v2 = 0 then Inl DivByZero
          else Inr (Some (v1\<lparr>val_n := isl_int_fdiv_r (val_n v1) (val_n v2)\<rparr>))
      | _ \<Rightarrow> Inr None)"

definition isl_val_gcd :: "isl_val option \<Rightarrow> isl_val option \<Rightarrow> isl_val option" where
  "isl_val_gcd p1 p2 =
     (case (p1, p2) of
        (Some v1, Some v2) \<Rightarrow>
          if \<not> isl_val_is_int p1 \<noteq> 0 \<or> \<not> isl_val_is_int p2 \<noteq> 0 then None
          else if isl_val_eq p1 p2 \<noteq> 0 then p1
          else if isl_val_is_one p1 \<noteq> 0 then p1
          else if isl_val_is_one p2 \<noteq> 0 then p2
          else Some (v1\<lparr>val_n := gcd (val_n v1) (val_n v2)\<rparr>)
      | _ \<Rightarrow> None)"

text \<open>
  \<open>isl_val_gcdext\<close>: \<open>want_x\<close> and \<open>want_y\<close> say whether the output pointers
  \<open>x\<close> and \<open>y\<close> are non-\<open>NULL\<close>; the result is the returned pointer together with
  what is stored through \<open>x\<close> and \<open>y\<close>.  The cofactors come from the big-integer
  library's \<open>isl_int_gcdext\<close>, which is a parameter: it returns \<open>(g, a, b)\<close>.
\<close>

definition isl_val_gcdext ::
  "(int \<Rightarrow> int \<Rightarrow> int \<times> int \<times> int) \<Rightarrow> isl_val option \<Rightarrow> isl_val option \<Rightarrow> bool \<Rightarrow> bool \<Rightarrow>
     isl_val option \<times> isl_val option \<times> isl_val option" where
  "isl_val_gcdext isl_int_gcdext p1 p2 want_x want_y =
     (if \<not> want_x \<and> \<not> want_y then (isl_val_gcd p1 p2, None, None)
      else
        (case (p1, p2) of
           (Some v1, Some v2) \<Rightarrow>
             if \<not> isl_val_is_int p1 \<noteq> 0 \<or> \<not> isl_val_is_int p2 \<noteq> 0 then (None, None, None)
             else
               (case isl_int_gcdext (val_n v1) (val_n v2) of
                  (g, a, b) \<Rightarrow>
                    (Some (v1\<lparr>val_n := g\<rparr>),
                     if want_x then Some \<lparr>val_n = a, val_d = 1\<rparr> else None,
                     if want_y then Some \<lparr>val_n = b, val_d = 1\<rparr> else None))
         | _ \<Rightarrow> (None, None, None)))"

subsection \<open>Canonical form\<close>

text \<open>
  The canonical forms of a value: an integer has \<open>d = 1\<close>; a rational has \<open>d > 0\<close>
  and \<open>gcd(|n|, d) = 1\<close>; plus infinity has \<open>n > 0\<close>, \<open>d = 0\<close>; minus infinity has
  \<open>n < 0\<close>, \<open>d = 0\<close>; NaN has \<open>n = 0\<close>, \<open>d = 0\<close>.
\<close>

definition canonical :: "isl_val \<Rightarrow> bool" where
  "canonical v \<longleftrightarrow>
     val_d v = 1 \<or>
     (0 < val_d v \<and> gcd \<bar>val_n v\<bar> (val_d v) = 1) \<or>
     (0 < val_n v \<and> val_d v = 0) \<or>
     (val_n v < 0 \<and> val_d v = 0) \<or>
     (val_n v = 0 \<and> val_d v = 0)"

text \<open>
  \<open>canonical_val\<close>: a non-\<open>NULL\<close> pointer to a value in canonical form.
  \<open>canonical_ptr\<close>, used in the proofs, leaves the pointer free to be \<open>NULL\<close>.
\<close>

definition canonical_val :: "isl_val option \<Rightarrow> bool" where
  "canonical_val p = (case p of None \<Rightarrow> False | Some v \<Rightarrow> canonical v)"

definition canonical_ptr :: "isl_val option \<Rightarrow> bool" where
  "canonical_ptr p = (case p of None \<Rightarrow> True | Some v \<Rightarrow> canonical v)"


text \<open>A non-\<open>NULL\<close> pointer to a fully normalized rational.\<close>

definition normalized_rat :: "isl_val option \<Rightarrow> bool" where
  "normalized_rat p =
     (case p of None \<Rightarrow> False | Some r \<Rightarrow> 0 < val_d r \<and> gcd \<bar>val_n r\<bar> (val_d r) = 1)"

section \<open>The tableau of the parametric integer programming engine (isl\_tab\_pip.c)\<close>

subsection \<open>Data\<close>

text \<open>
  How a function of the engine can fail.  \<open>AssertFailed\<close>: an \<open>isl_assert\<close> fails;
  \<open>PrimFailed\<close>: a primitive of the tableau or matrix library returns \<open>NULL\<close> or a
  negative value.  In these two cases the C code returns \<open>NULL\<close> or \<open>-1\<close>.
  \<open>NullDeref\<close>: the code dereferences a \<open>NULL\<close> pointer; \<open>Fault\<close>: the big-integer
  library faults.  In these two cases the program is stopped and no function returns:
  \<open>fatal\<close> holds, and every caller passes the error on.
\<close>

datatype error = AssertFailed | PrimFailed | NullDeref | Fault fault


datatype isl_tab_row_sign =
  isl_tab_row_unknown | isl_tab_row_pos | isl_tab_row_neg | isl_tab_row_any

text \<open>
  \<open>struct isl_tab_var\<close>, with the fields the engine reads and writes.  A pointer to
  such a record is \<open>&tab->var[i]\<close> or \<open>&tab->con[r]\<close>.
\<close>

record isl_tab_var =
  var_index :: nat
  var_is_row :: bool
  var_is_nonneg :: bool
  var_frozen :: bool

datatype var_ptr = Var nat | Con nat

text \<open>
  The undo stack.  The first five kinds are the ones the engine pushes itself;
  \<open>isl_tab_undo_empty\<close> is what \<open>isl_tab_mark_empty\<close> pushes,
  \<open>isl_tab_undo_allocate\<close> what \<open>isl_tab_allocate_con\<close> pushes and \<open>Undo_basis\<close>
  what \<open>isl_tab_push_basis\<close> pushes.
\<close>

datatype isl_tab_undo_type =
  isl_tab_undo_nonneg | isl_tab_undo_drop_sample | isl_tab_undo_bset_eq |
  isl_tab_undo_bset_ineq | isl_tab_undo_bset_div | isl_tab_undo_empty |
  isl_tab_undo_allocate

datatype isl_tab_undo =
  Undo isl_tab_undo_type | Undo_var isl_tab_undo_type var_ptr | Undo_basis "int list"

text \<open>
  \<open>struct isl_mat\<close> and \<open>struct isl_tab\<close>.  Of the matrix \<open>tab->mat\<close> the engine
  uses the rows only, so \<open>tab_mat\<close> is the list of rows.  A row of \<open>tab_mat\<close> is
  \<open>(denominator, constant, [M], c\<^sub>1, \<dots>)\<close>; \<open>tab_M\<close> is 1 when the big parameter has a column and 0 otherwise, so that the
  column coefficients start at offset \<open>2 + tab_M\<close>.  \<open>tab_row_sign\<close>, \<open>tab_bset\<close> and
  \<open>tab_samples\<close> are pointers that may be \<open>NULL\<close>.  The type \<open>'b\<close> is that of
  basic sets, which belong to the polyhedral library.  Reading \<open>tab_mat\<close>, \<open>tab_var\<close>,
  \<open>tab_con\<close> or \<open>tab_row_sign\<close> outside its bounds is undefined behaviour in C; the
  theorems whose conclusion depends on such a read assume the index in bounds.
\<close>

record isl_mat =
  mat_n_row :: nat
  mat_n_col :: nat
  mat_row :: "int list list"

record 'b isl_tab =
  tab_mat :: "int list list"
  tab_n_row :: nat
  tab_n_col :: nat
  tab_n_dead :: nat
  tab_n_redundant :: nat
  tab_n_var :: nat
  tab_n_param :: nat
  tab_n_div :: nat
  tab_n_con :: nat
  tab_M :: nat
  tab_var :: "isl_tab_var list"
  tab_con :: "isl_tab_var list"
  tab_row_var :: "int list"
  tab_col_var :: "int list"
  tab_row_sign :: "isl_tab_row_sign list option"
  tab_empty :: bool
  tab_rational :: bool
  tab_bset :: "'b option"
  tab_samples :: "isl_mat option"
  tab_n_sample :: nat
  tab_n_outside :: nat
  tab_undo :: "isl_tab_undo list"

subsection \<open>Primitives of the tableau library\<close>

text \<open>
  The primitives defined in isl\_tab.c and isl\_mat.c are parameters of the engine,
  collected in a record: \<open>isl_tab_var_from_row\<close>, \<open>isl_tab_pivot\<close>,
  \<open>isl_tab_extend_cons\<close>, \<open>isl_tab_allocate_con\<close> (which returns the index of the new
  constraint), \<open>isl_tab_get_sample_value\<close> and \<open>isl_mat_extend\<close>, together with
  \<open>isl_tab_perform_undo\<close>, the reversal of one undo record, which the rollback applies
  to the tableau from which the record has been popped.
  A primitive that can return \<open>NULL\<close> or a negative value returns a sum.
\<close>

record 'b isl_tab_ops =
  isl_tab_var_from_row :: "'b isl_tab \<Rightarrow> nat \<Rightarrow> isl_tab_var"
  isl_tab_pivot :: "'b isl_tab \<Rightarrow> nat \<Rightarrow> nat \<Rightarrow> 'b isl_tab"
  isl_tab_extend_cons :: "'b isl_tab \<Rightarrow> nat \<Rightarrow> error + 'b isl_tab"
  isl_tab_allocate_con :: "'b isl_tab \<Rightarrow> error + 'b isl_tab \<times> nat"
  isl_tab_perform_undo :: "isl_tab_undo \<Rightarrow> 'b isl_tab \<Rightarrow> error + 'b isl_tab"
  isl_tab_get_sample_value :: "'b isl_tab \<Rightarrow> error + int list"
  isl_mat_extend :: "isl_mat \<Rightarrow> nat \<Rightarrow> nat \<Rightarrow> error + isl_mat"

text \<open>
  Modelled from the spec: the undo primitives \<open>isl_tab_push\<close>, \<open>isl_tab_push_var\<close>,
  \<open>isl_tab_push_basis\<close>, \<open>isl_tab_snap\<close> and \<open>isl_tab_mark_empty\<close> of isl\_tab.c,
  which is not among the sources.  Each push puts a tagged record on the undo stack; a
  snapshot is a stack-depth token; marking a tableau empty puts it in the terminal empty
  state and, as every mutating primitive does, pushes an undo record.
\<close>

definition isl_tab_push :: "'b isl_tab \<Rightarrow> isl_tab_undo_type \<Rightarrow> 'b isl_tab" where
  "isl_tab_push tab kind = tab\<lparr>tab_undo := Undo kind # tab_undo tab\<rparr>"

definition isl_tab_push_var ::
  "'b isl_tab \<Rightarrow> isl_tab_undo_type \<Rightarrow> var_ptr \<Rightarrow> 'b isl_tab" where
  "isl_tab_push_var tab kind v = tab\<lparr>tab_undo := Undo_var kind v # tab_undo tab\<rparr>"



definition isl_tab_mark_empty :: "'b isl_tab \<Rightarrow> 'b isl_tab" where
  "isl_tab_mark_empty tab = isl_tab_push (tab\<lparr>tab_empty := True\<rparr>) isl_tab_undo_empty"



text \<open>Writing one entry of the matrix: \<open>mat->row[i][j] = x\<close>.\<close>

definition mat_set :: "int list list \<Rightarrow> nat \<Rightarrow> nat \<Rightarrow> int \<Rightarrow> int list list" where
  "mat_set m i j x = m[i := (m ! i)[j := x]]"

subsection \<open>Obviously negative rows and the first violated constraint\<close>

text \<open>
  One turn of the two loops of \<open>is_obviously_neg\<close>, for variable \<open>k\<close>: \<open>True\<close> is
  \<open>continue\<close>, \<open>False\<close> is \<open>return 0\<close>.
\<close>

definition obviously_neg_coef :: "'b isl_tab \<Rightarrow> nat \<Rightarrow> nat \<Rightarrow> bool" where
  "obviously_neg_coef tab row k =
     (let off = 2 + tab_M tab; v = tab_var tab ! k
      in if var_is_row v then True
         else if tab_mat tab ! row ! (off + var_index v) = 0 then True
         else if \<not> var_is_nonneg v then False
         else if 0 < tab_mat tab ! row ! (off + var_index v) then False
         else True)"

definition is_obviously_neg :: "'b isl_tab \<Rightarrow> nat \<Rightarrow> bool" where
  "is_obviously_neg tab row =
     (if tab_M tab \<noteq> 0 \<and> 0 < tab_mat tab ! row ! 2 then False
      else if tab_M tab \<noteq> 0 \<and> tab_mat tab ! row ! 2 < 0 then True
      else if 0 \<le> tab_mat tab ! row ! 1 then False
      else list_all (obviously_neg_coef tab row) [0..<tab_n_param tab] \<and>
           list_all (\<lambda>i. obviously_neg_coef tab row (tab_n_var tab - tab_n_div tab + i))
             [0..<tab_n_div tab])"

text \<open>The first loop of \<open>first_neg\<close>, run when the big parameter is present.\<close>

fun first_neg_M :: "'b isl_tab_ops \<Rightarrow> 'b isl_tab \<Rightarrow> nat list \<Rightarrow> nat option" where
  "first_neg_M ops tab [] = None"
| "first_neg_M ops tab (row # rows) =
     (if \<not> var_is_nonneg (isl_tab_var_from_row ops tab row) then first_neg_M ops tab rows
      else if tab_mat tab ! row ! 2 < 0 then Some row
      else first_neg_M ops tab rows)"

text \<open>
  The second loop of \<open>first_neg\<close>.  It writes \<open>tab->row_sign[row]\<close>, so the tableau
  is returned with the row found (\<open>None\<close> for \<open>-1\<close>).
\<close>

fun first_neg_sign ::
  "'b isl_tab_ops \<Rightarrow> 'b isl_tab \<Rightarrow> nat list \<Rightarrow> 'b isl_tab \<times> nat option" where
  "first_neg_sign ops tab [] = (tab, None)"
| "first_neg_sign ops tab (row # rows) =
     (if \<not> var_is_nonneg (isl_tab_var_from_row ops tab row) then first_neg_sign ops tab rows
      else
        (case tab_row_sign tab of
           Some rs \<Rightarrow>
             let rs1 = (if rs ! row = isl_tab_row_unknown \<and> is_obviously_neg tab row
                        then rs[row := isl_tab_row_neg] else rs);
                 tab1 = tab\<lparr>tab_row_sign := Some rs1\<rparr>
             in if rs1 ! row \<noteq> isl_tab_row_neg then first_neg_sign ops tab1 rows
                else (tab1, Some row)
         | None \<Rightarrow>
             if \<not> is_obviously_neg tab row then first_neg_sign ops tab rows
             else (tab, Some row)))"

definition first_neg :: "'b isl_tab_ops \<Rightarrow> 'b isl_tab \<Rightarrow> 'b isl_tab \<times> nat option" where
  "first_neg ops tab =
     (let rows = [tab_n_redundant tab..<tab_n_row tab]
      in case (if tab_M tab \<noteq> 0 then first_neg_M ops tab rows else None) of
           Some row \<Rightarrow> (tab, Some row)
         | None \<Rightarrow> first_neg_sign ops tab rows)"

subsection \<open>The pivot column\<close>

text \<open>The loop of \<open>lexmin_col_pair\<close> over the variables \<open>is\<close>; \<open>None\<close> is \<open>-1\<close>.\<close>

fun lexmin_col_pair_loop ::
  "'b isl_tab \<Rightarrow> nat \<Rightarrow> nat \<Rightarrow> nat \<Rightarrow> nat list \<Rightarrow> nat option" where
  "lexmin_col_pair_loop tab row col1 col2 [] = None"
| "lexmin_col_pair_loop tab row col1 col2 (i # is) =
     (let off = 2 + tab_M tab; tr = tab_mat tab ! row; v = tab_var tab ! i
      in if \<not> var_is_row v
         then (if var_index v = col1 then Some col2
               else if var_index v = col2 then Some col1
               else lexmin_col_pair_loop tab row col1 col2 is)
         else if var_index v = row then lexmin_col_pair_loop tab row col1 col2 is
         else
           let r = tab_mat tab ! var_index v;
               s1 = sgn (r ! (off + col1));
               s2 = sgn (r ! (off + col2))
           in if s1 = 0 \<and> s2 = 0 then lexmin_col_pair_loop tab row col1 col2 is
              else if s1 < s2 then Some col1
              else if s2 < s1 then Some col2
              else
                let tmp = r ! (off + col2) * tr ! (off + col1) -
                          r ! (off + col1) * tr ! (off + col2)
                in if 0 < tmp then Some col1
                   else if tmp < 0 then Some col2
                   else lexmin_col_pair_loop tab row col1 col2 is)"

definition lexmin_col_pair :: "'b isl_tab \<Rightarrow> nat \<Rightarrow> nat \<Rightarrow> nat \<Rightarrow> nat option" where
  "lexmin_col_pair tab row col1 col2 =
     lexmin_col_pair_loop tab row col1 col2 [tab_n_param tab..<tab_n_var tab - tab_n_div tab]"

text \<open>
  Column \<open>j\<close> is skipped by \<open>lexmin_pivot_col\<close> when it holds a parameter or a div,
  or when its entry in the row is not positive.
\<close>

definition pivot_candidate :: "'b isl_tab \<Rightarrow> nat \<Rightarrow> nat \<Rightarrow> bool" where
  "pivot_candidate tab row j =
     (if 0 \<le> tab_col_var tab ! j \<and>
         (tab_col_var tab ! j < int (tab_n_param tab) \<or>
          int (tab_n_var tab - tab_n_div tab) \<le> tab_col_var tab ! j) then False
      else if \<not> 0 < tab_mat tab ! row ! (2 + tab_M tab + j) then False
      else True)"

text \<open>
  The loop of \<open>lexmin_pivot_col\<close> over the columns \<open>js\<close>, with the current value
  of \<open>col\<close>; the failed \<open>isl_assert\<close> is the error.
\<close>

fun lexmin_pivot_col_loop :: "'b isl_tab \<Rightarrow> nat \<Rightarrow> nat \<Rightarrow> nat list \<Rightarrow> error + nat" where
  "lexmin_pivot_col_loop tab row col [] = Inr col"
| "lexmin_pivot_col_loop tab row col (j # js) =
     (if \<not> pivot_candidate tab row j then lexmin_pivot_col_loop tab row col js
      else if col = tab_n_col tab then lexmin_pivot_col_loop tab row j js
      else
        (case lexmin_col_pair tab row col j of
           None \<Rightarrow> Inl AssertFailed
         | Some c \<Rightarrow> lexmin_pivot_col_loop tab row c js))"

definition lexmin_pivot_col :: "'b isl_tab \<Rightarrow> nat \<Rightarrow> error + nat" where
  "lexmin_pivot_col tab row =
     lexmin_pivot_col_loop tab row (tab_n_col tab) [tab_n_dead tab..<tab_n_col tab]"

subsection \<open>Restoring feasibility\<close>

text \<open>
  The \<open>while\<close> loop of \<open>restore_lexmin\<close>.  Nothing in the function bounds the number
  of pivots, so the loop is a partial function: \<open>None\<close> means that it does not return.
  The counts of \<open>struct isl_tab\<close> are declared \<open>unsigned\<close> (in isl\_tab.h, which is
  not among the sources), so the test \<open>col >= tab->n_col\<close> compares in unsigned
  arithmetic: the \<open>-1\<close> that \<open>lexmin_pivot_col\<close> returns for a failed assertion is
  converted to the largest unsigned value and passes the test, and the tableau is marked
  empty.  The test \<open>col < 0\<close> after it never holds.
\<close>

partial_function (option) restore_lexmin_loop ::
  "'b isl_tab_ops \<Rightarrow> 'b isl_tab \<Rightarrow> (error + 'b isl_tab) option" where
  "restore_lexmin_loop ops tab =
     (case first_neg ops tab of
        (tab1, None) \<Rightarrow> Some (Inr tab1)
      | (tab1, Some row) \<Rightarrow>
          (case lexmin_pivot_col tab1 row of
             Inl e \<Rightarrow> Some (Inr (isl_tab_mark_empty tab1))
           | Inr col \<Rightarrow>
               if tab_n_col tab1 \<le> col then Some (Inr (isl_tab_mark_empty tab1))
               else restore_lexmin_loop ops (isl_tab_pivot ops tab1 row col)))"

declare restore_lexmin_loop.simps [code]

definition restore_lexmin ::
  "'b isl_tab_ops \<Rightarrow> 'b isl_tab \<Rightarrow> (error + 'b isl_tab) option" where
  "restore_lexmin ops tab =
     (if tab_empty tab then Some (Inr tab) else restore_lexmin_loop ops tab)"

subsection \<open>Integrality of a row and the non-parametric cut\<close>

definition isl_int_is_divisible_by :: "int \<Rightarrow> int \<Rightarrow> bool" where
  "isl_int_is_divisible_by a b = (b dvd a)"

text \<open>One turn of the loops of \<open>integer_parameter\<close>, for variable \<open>k\<close>.\<close>

definition integer_coef :: "'b isl_tab \<Rightarrow> nat \<Rightarrow> nat \<Rightarrow> bool" where
  "integer_coef tab row k =
     (let off = 2 + tab_M tab; v = tab_var tab ! k
      in if var_is_row v then True
         else isl_int_is_divisible_by (tab_mat tab ! row ! (off + var_index v))
                (tab_mat tab ! row ! 0))"

definition integer_parameter :: "'b isl_tab \<Rightarrow> nat \<Rightarrow> bool" where
  "integer_parameter tab row =
     (list_all (integer_coef tab row) [0..<tab_n_param tab] \<and>
      list_all (\<lambda>i. integer_coef tab row (tab_n_var tab - tab_n_div tab + i))
        [0..<tab_n_div tab])"








text \<open>
  The \<open>for\<close> loop of \<open>add_cut\<close> over the first \<open>k\<close> columns, writing to the new row
  \<open>r_row = tab->mat->row[ri]\<close> from the row \<open>row\<close>.  Each read is made in the matrix as
  it is at that moment.
\<close>

definition cut_cols :: "nat \<Rightarrow> nat \<Rightarrow> nat \<Rightarrow> nat \<Rightarrow> int list list \<Rightarrow> int list list" where
  "cut_cols off ri row k m =
     fold (\<lambda>i m. mat_set m ri (off + i) (isl_int_fdiv_r (m ! row ! (off + i)) (m ! row ! 0)))
       [0..<k] m"

text \<open>All the writes of \<open>add_cut\<close> to the new row, one after the other.\<close>

definition add_cut_row :: "nat \<Rightarrow> nat \<Rightarrow> int list list \<Rightarrow> nat \<Rightarrow> nat \<Rightarrow> int list list" where
  "add_cut_row M n_col m0 ri row =
     (let off = 2 + M;
          m1 = mat_set m0 ri 0 (m0 ! row ! 0);
          m2 = mat_set m1 ri 1 (- (m1 ! row ! 1));
          m3 = mat_set m2 ri 1 (isl_int_fdiv_r (m2 ! ri ! 1) (m2 ! row ! 0));
          m4 = mat_set m3 ri 1 (- (m3 ! ri ! 1));
          m5 = (if M \<noteq> 0 then mat_set m4 ri 2 0 else m4)
      in cut_cols off ri row n_col m5)"

text \<open>
  \<open>add_cut\<close>.  \<open>isl_int_fdiv_r\<close> by a zero denominator faults.  The result is the
  tableau and the row of the cut.
\<close>

definition add_cut :: "'b isl_tab_ops \<Rightarrow> 'b isl_tab \<Rightarrow> nat \<Rightarrow> error + 'b isl_tab \<times> nat" where
  "add_cut ops tab row =
     (case isl_tab_extend_cons ops tab 1 of
        Inl e \<Rightarrow> Inl e
      | Inr tab1 \<Rightarrow>
          (case isl_tab_allocate_con ops tab1 of
             Inl e \<Rightarrow> Inl e
           | Inr (tab2, r) \<Rightarrow>
               if tab_mat tab2 ! row ! 0 = 0 then Inl (Fault DivByZero)
               else
                 let tab3 = tab2\<lparr>tab_mat :=
                              add_cut_row (tab_M tab2) (tab_n_col tab2) (tab_mat tab2)
                                (var_index (tab_con tab2 ! r)) row,
                            tab_con := (tab_con tab2)
                              [r := (tab_con tab2 ! r)\<lparr>var_is_nonneg := True\<rparr>]\<rparr>;
                     tab4 = isl_tab_push_var tab3 isl_tab_undo_nonneg (Con r);
                     tab5 = (case tab_row_sign tab4 of
                               None \<Rightarrow> tab4
                             | Some rs \<Rightarrow>
                                 tab4\<lparr>tab_row_sign :=
                                   Some (rs[var_index (tab_con tab4 ! r) := isl_tab_row_neg])\<rparr>)
                 in Inr (tab5, var_index (tab_con tab5 ! r))))"

subsection \<open>Cutting to an integer sample\<close>




subsection \<open>Feasibility of the context\<close>



text \<open>
  \<open>struct isl_sol\<close>: the context tableau, a pointer that may be \<open>NULL\<close>.  The function
  pointers \<open>add\<close> and \<open>free\<close> are not fields of the record; \<open>add\<close> is passed to the
  driver as an argument.
\<close>

record 'b isl_sol =
  sol_context_tab :: "'b isl_tab option"




subsection \<open>The driver and the solution accumulators\<close>

text \<open>
  \<open>struct isl_sol_map\<close>: the pieces of the solution (basic maps, of type \<open>'m\<close>) and,
  when it is tracked, the set of the parts of the context without solution; \<open>sol_empty\<close>
  is \<open>NULL\<close> when it is not tracked.
\<close>

record ('b, 'm) isl_sol_map = "'b isl_sol" +
  sol_map :: "'m list"
  sol_empty :: "'b list option"
  sol_max :: bool

text \<open>
  \<open>add_empty\<close>.  \<open>finalize_simplify\<close> is \<open>isl_basic_set_finalize\<close> after
  \<open>isl_basic_set_simplify\<close>, of the polyhedral library; \<open>isl_set_add\<close> appends the
  basic set to the set, and fails on a \<open>NULL\<close> basic set.  The context tableau is
  dereferenced without a test.
\<close>

definition add_empty ::
  "('b \<Rightarrow> 'b) \<Rightarrow> ('b, 'm, 'z) isl_sol_map_scheme \<Rightarrow> error + ('b, 'm, 'z) isl_sol_map_scheme" where
  "add_empty finalize_simplify sol =
     (case sol_empty sol of
        None \<Rightarrow> Inr sol
      | Some es \<Rightarrow>
          (case sol_context_tab sol of
             None \<Rightarrow> Inl NullDeref
           | Some ctx \<Rightarrow>
               (case tab_bset ctx of
                  None \<Rightarrow> Inl PrimFailed
                | Some bset \<Rightarrow> Inr (sol\<lparr>sol_empty := Some (es @ [finalize_simplify bset])\<rparr>))))"

text \<open>
  \<open>sol_map_add\<close> and \<open>sol_for_add\<close>.  What they do with a tableau that is not empty
  (building the basic map of the piece, calling the user's function) is the parameter
  \<open>add_piece\<close>.
\<close>

definition sol_map_add ::
  "(('b, 'm, 'z) isl_sol_map_scheme \<Rightarrow> 'b isl_tab \<Rightarrow> error + ('b, 'm, 'z) isl_sol_map_scheme) \<Rightarrow>
   ('b \<Rightarrow> 'b) \<Rightarrow> ('b, 'm, 'z) isl_sol_map_scheme \<Rightarrow> 'b isl_tab \<Rightarrow>
   error + ('b, 'm, 'z) isl_sol_map_scheme" where
  "sol_map_add add_piece finalize_simplify sol tab =
     (if tab_empty tab then add_empty finalize_simplify sol else add_piece sol tab)"

definition sol_for_add ::
  "(('b, 'z) isl_sol_scheme \<Rightarrow> 'b isl_tab \<Rightarrow> error + ('b, 'z) isl_sol_scheme) \<Rightarrow>
   ('b, 'z) isl_sol_scheme \<Rightarrow> 'b isl_tab \<Rightarrow> error + ('b, 'z) isl_sol_scheme" where
  "sol_for_add add_piece sol tab = (if tab_empty tab then Inr sol else add_piece sol tab)"

text \<open>
  How one turn of the \<open>for\<close> loop of \<open>find_solutions\<close> ends: \<open>continue\<close>, which runs
  \<open>tab = restore_lexmin(tab)\<close> and tests \<open>tab && !tab->empty\<close> again, or \<open>break\<close>.
\<close>

datatype ctl = Continue | Break

text \<open>
  The \<open>for\<close> loop of \<open>find_solutions\<close>.  The body of the loop (classifying the row
  signs, splitting the context, cutting) is the parameter \<open>body\<close>: it returns how the
  turn ends together with the solution and tableau it leaves, or the error of a
  \<open>goto error\<close>, or \<open>None\<close> when it does not return.  The loop ends on an empty
  tableau; a \<open>NULL\<close> tableau ends it too and makes \<open>sol->add\<close> fail.
\<close>

partial_function (option) find_solutions_loop ::
  "(('b, 'z) isl_sol_scheme \<Rightarrow> 'b isl_tab \<Rightarrow>
      (error + ctl \<times> ('b, 'z) isl_sol_scheme \<times> 'b isl_tab) option) \<Rightarrow>
   'b isl_tab_ops \<Rightarrow> ('b, 'z) isl_sol_scheme \<Rightarrow> 'b isl_tab \<Rightarrow>
   (error + ('b, 'z) isl_sol_scheme \<times> 'b isl_tab) option" where
  "find_solutions_loop body ops sol tab =
     (if tab_empty tab then Some (Inr (sol, tab))
      else
        Option.bind (body sol tab)
          (\<lambda>turn. case turn of
             Inl e \<Rightarrow> Some (Inl e)
           | Inr (c, sol1, tab1) \<Rightarrow>
               (case c of
                  Break \<Rightarrow> Some (Inr (sol1, tab1))
                | Continue \<Rightarrow>
                    Option.bind (restore_lexmin ops tab1)
                      (\<lambda>res. case res of
                         Inl e \<Rightarrow> Some (Inl e)
                       | Inr tab2 \<Rightarrow> find_solutions_loop body ops sol1 tab2))))"

text \<open>
  \<open>find_solutions\<close>: after the loop, at \<open>done\<close>, the tableau goes to \<open>sol->add\<close>.
  For a tableau that is not empty the context tableau is dereferenced without a test.
\<close>

definition find_solutions ::
  "(('b, 'z) isl_sol_scheme \<Rightarrow> 'b isl_tab \<Rightarrow>
      (error + ctl \<times> ('b, 'z) isl_sol_scheme \<times> 'b isl_tab) option) \<Rightarrow>
   'b isl_tab_ops \<Rightarrow>
   (('b, 'z) isl_sol_scheme \<Rightarrow> 'b isl_tab \<Rightarrow> error + ('b, 'z) isl_sol_scheme) \<Rightarrow>
   ('b, 'z) isl_sol_scheme \<Rightarrow> 'b isl_tab \<Rightarrow> (error + ('b, 'z) isl_sol_scheme) option" where
  "find_solutions body ops add sol tab =
     (if tab_empty tab then Some (add sol tab)
      else
        (case sol_context_tab sol of
           None \<Rightarrow> Some (Inl NullDeref)
         | Some ctx \<Rightarrow>
             if tab_empty ctx then Some (add sol tab)
             else
               Option.bind (find_solutions_loop body ops sol tab)
                 (\<lambda>res. case res of
                    Inl e \<Rightarrow> Some (Inl e)
                  | Inr (sol1, tab1) \<Rightarrow> Some (add sol1 tab1))))"

subsection \<open>Iterations of the feasibility loop, and example tableaux\<close>

text \<open>
  One turn of the loop of \<open>restore_lexmin\<close> that pivots: \<open>lexmin_step ops tab tab'\<close>
  holds when the loop, with \<open>tab\<close> at its head, pivots and comes back to its head with
  \<open>tab'\<close>.
\<close>

inductive lexmin_step :: "'b isl_tab_ops \<Rightarrow> 'b isl_tab \<Rightarrow> 'b isl_tab \<Rightarrow> bool"
  for ops :: "'b isl_tab_ops" where
  pivot: "first_neg ops tab = (tab1, Some row) \<Longrightarrow> lexmin_pivot_col tab1 row = Inr col \<Longrightarrow>
     col < tab_n_col tab1 \<Longrightarrow> lexmin_step ops tab (isl_tab_pivot ops tab1 row col)"

text \<open>
  Primitives for the examples of the feasibility loop and of the cut: the variable of a
  row is found through \<open>row_var\<close> (a variable when non-negative, else a constraint)
  and a new constraint takes the next row of the matrix.  The pivot and the reversal of
  an undo record, which these examples do not run, change nothing.
\<close>

definition example_ops :: "unit isl_tab_ops" where
  "example_ops =
     \<lparr>isl_tab_var_from_row =
        (\<lambda>tab row. if 0 \<le> tab_row_var tab ! row then tab_var tab ! nat (tab_row_var tab ! row)
                    else tab_con tab ! nat (- tab_row_var tab ! row - 1)),
      isl_tab_pivot = (\<lambda>tab row col. tab),
      isl_tab_extend_cons = (\<lambda>tab n. Inr tab),
      isl_tab_allocate_con =
        (\<lambda>tab. Inr (tab\<lparr>tab_con := tab_con tab @
                          [\<lparr>var_index = tab_n_row tab, var_is_row = True,
                            var_is_nonneg = False, var_frozen = False\<rparr>],
                        tab_n_row := tab_n_row tab + 1,
                        tab_n_con := tab_n_con tab + 1\<rparr>, length (tab_con tab))),
      isl_tab_perform_undo = (\<lambda>u tab. Inr tab),
      isl_tab_get_sample_value =
        (\<lambda>tab. Inr (1 # map (\<lambda>v. tab_mat tab ! var_index v ! 1) (tab_var tab))),
      isl_mat_extend =
        (\<lambda>m r c. Inr (m\<lparr>mat_n_row := r,
                        mat_row := mat_row m @ replicate (r - length (mat_row m)) (replicate c 0)\<rparr>))\<rparr>"

text \<open>The tableau of \<open>-1 - x \<ge> 0\<close> with \<open>x \<ge> 0\<close> in a column: no pivot column.\<close>

definition infeasible_tab :: "unit isl_tab" where
  "infeasible_tab =
     \<lparr>tab_mat = [[1, - 1, - 1]], tab_n_row = 1, tab_n_col = 1, tab_n_dead = 0,
      tab_n_redundant = 0, tab_n_var = 1, tab_n_param = 0, tab_n_div = 0, tab_n_con = 1,
      tab_M = 0,
      tab_var = [\<lparr>var_index = 0, var_is_row = False, var_is_nonneg = True, var_frozen = True\<rparr>],
      tab_con = [\<lparr>var_index = 0, var_is_row = True, var_is_nonneg = True, var_frozen = False\<rparr>],
      tab_row_var = [- 1], tab_col_var = [0], tab_row_sign = None, tab_empty = False,
      tab_rational = False, tab_bset = Some (), tab_samples = None, tab_n_sample = 0,
      tab_n_outside = 0, tab_undo = []\<rparr>"

text \<open>
  A tableau with the big parameter, one parameter \<open>p\<close> (column 0), one variable in
  row 0 and a slack in column 1: row 0 reads \<open>2 x' = 1 + 2 M + 2 p + 3 y\<close>.  Its matrix
  has a second row allocated for the next constraint.
\<close>

definition cut_tab :: "unit isl_tab" where
  "cut_tab =
     \<lparr>tab_mat = [[2, 1, 2, 2, 3], [0, 0, 0, 0, 0]], tab_n_row = 1, tab_n_col = 2,
      tab_n_dead = 0, tab_n_redundant = 0, tab_n_var = 2, tab_n_param = 1, tab_n_div = 0,
      tab_n_con = 1, tab_M = 1,
      tab_var = [\<lparr>var_index = 0, var_is_row = False, var_is_nonneg = False, var_frozen = False\<rparr>,
                 \<lparr>var_index = 0, var_is_row = True, var_is_nonneg = True, var_frozen = True\<rparr>],
      tab_con = [\<lparr>var_index = 1, var_is_row = False, var_is_nonneg = True, var_frozen = False\<rparr>],
      tab_row_var = [1], tab_col_var = [0, - 1],
      tab_row_sign = Some [isl_tab_row_unknown, isl_tab_row_unknown], tab_empty = False,
      tab_rational = False, tab_bset = Some (), tab_samples = None, tab_n_sample = 0,
      tab_n_outside = 0, tab_undo = []\<rparr>"

subsection \<open>The contract of the tableau primitives\<close>







subsection \<open>Example primitives that keep an undo stack\<close>










section \<open>Properties of the rational values\<close>

subsection \<open>The predicates on a non-\<open>NULL\<close> pointer\<close>

lemma c_int_simps:
  "c_int b \<noteq> 0 \<longleftrightarrow> b" "c_int b = 1 \<longleftrightarrow> b" "c_int b = 0 \<longleftrightarrow> \<not> b"
  by (simp_all add: c_int_def)

lemma is_int_Some:
  "isl_val_is_int (Some v) \<noteq> 0 \<longleftrightarrow> val_d v = 1"
  "isl_val_is_int (Some v) = 1 \<longleftrightarrow> val_d v = 1"
  "isl_val_is_int (Some v) = 0 \<longleftrightarrow> val_d v \<noteq> 1"
  by (simp_all add: isl_val_is_int_def c_int_simps)

lemma is_rat_Some:
  "isl_val_is_rat (Some v) \<noteq> 0 \<longleftrightarrow> val_d v \<noteq> 0"
  "isl_val_is_rat (Some v) = 1 \<longleftrightarrow> val_d v \<noteq> 0"
  "isl_val_is_rat (Some v) = 0 \<longleftrightarrow> val_d v = 0"
  by (simp_all add: isl_val_is_rat_def c_int_simps)

lemma is_nan_Some:
  "isl_val_is_nan (Some v) \<noteq> 0 \<longleftrightarrow> val_n v = 0 \<and> val_d v = 0"
  "isl_val_is_nan (Some v) = 1 \<longleftrightarrow> val_n v = 0 \<and> val_d v = 0"
  "isl_val_is_nan (Some v) = 0 \<longleftrightarrow> \<not> (val_n v = 0 \<and> val_d v = 0)"
  by (simp_all add: isl_val_is_nan_def c_int_simps)

lemma is_infty_Some:
  "isl_val_is_infty (Some v) \<noteq> 0 \<longleftrightarrow> 0 < val_n v \<and> val_d v = 0"
  "isl_val_is_infty (Some v) = 1 \<longleftrightarrow> 0 < val_n v \<and> val_d v = 0"
  by (simp_all add: isl_val_is_infty_def c_int_simps)

lemma is_neginfty_Some:
  "isl_val_is_neginfty (Some v) \<noteq> 0 \<longleftrightarrow> val_n v < 0 \<and> val_d v = 0"
  "isl_val_is_neginfty (Some v) = 1 \<longleftrightarrow> val_n v < 0 \<and> val_d v = 0"
  by (simp_all add: isl_val_is_neginfty_def c_int_simps)

lemma is_zero_Some:
  "isl_val_is_zero (Some v) \<noteq> 0 \<longleftrightarrow> val_n v = 0 \<and> val_d v \<noteq> 0"
  "isl_val_is_zero (Some v) = 1 \<longleftrightarrow> val_n v = 0 \<and> val_d v \<noteq> 0"
  by (simp_all add: isl_val_is_zero_def c_int_simps)

lemma is_one_Some:
  "isl_val_is_one (Some v) \<noteq> 0 \<longleftrightarrow> val_n v = val_d v"
  "isl_val_is_one (Some v) = 1 \<longleftrightarrow> val_n v = val_d v"
  by (simp_all add: isl_val_is_one_def c_int_simps)

lemma is_neg_Some:
  "isl_val_is_neg (Some v) \<noteq> 0 \<longleftrightarrow> val_n v < 0"
  by (simp add: isl_val_is_neg_def c_int_simps)

lemma is_nonneg_Some:
  "isl_val_is_nonneg (Some v) \<noteq> 0 \<longleftrightarrow> \<not> (val_n v = 0 \<and> val_d v = 0) \<and> 0 \<le> val_n v"
  by (simp add: isl_val_is_nonneg_def is_nan_Some c_int_simps)

lemmas val_tests =
  is_int_Some is_rat_Some is_nan_Some is_infty_Some is_neginfty_Some is_zero_Some
  is_one_Some is_neg_Some is_nonneg_Some

lemmas val_consts =
  isl_val_nan_def isl_val_infty_def isl_val_neginfty_def isl_val_zero_def isl_val_one_def
  isl_val_int_from_si_def

lemma isl_val_eq_fields:
  "(v = \<lparr>val_n = a, val_d = b\<rparr>) = (val_n v = a \<and> val_d v = b)"
  by (cases v) simp

subsection \<open>NaN at the predicates and comparisons\<close>

text \<open>
  Claim C9.  \<open>isl_val_is_one\<close> only tests \<open>n = d\<close>, so on the NaN value
  (\<open>n = 0\<close>, \<open>d = 0\<close>) it returns 1, while \<open>isl_val_is_int\<close>, \<open>isl_val_is_rat\<close>
  and \<open>isl_val_is_zero\<close> all return 0 on NaN.
\<close>

theorem isl_val_is_one_nan:
  "isl_val_is_one isl_val_nan = 1 \<and> isl_val_is_int isl_val_nan = 0 \<and>
   isl_val_is_rat isl_val_nan = 0 \<and> isl_val_is_zero isl_val_nan = 0"
  by (simp add: isl_val_nan_def isl_val_is_one_def isl_val_is_int_def isl_val_is_rat_def
      isl_val_is_zero_def c_int_def)

lemma cmp_nan_left:
  assumes "val_n v1 = 0" "val_d v1 = 0"
  shows "isl_val_eq (Some v1) (Some v2) = 0" and "isl_val_ne (Some v1) (Some v2) = 0"
    and "isl_val_lt (Some v1) (Some v2) = 0" and "isl_val_le (Some v1) (Some v2) = 0"
    and "isl_val_lt (Some v2) (Some v1) = 0" and "isl_val_le (Some v2) (Some v1) = 0"
  using assms
  by (simp_all add: isl_val_eq_def isl_val_ne_def isl_val_lt_def isl_val_le_def val_tests)

lemma cmp_nan_right:
  assumes "val_n v2 = 0" "val_d v2 = 0"
  shows "isl_val_eq (Some v1) (Some v2) = 0" and "isl_val_ne (Some v1) (Some v2) = 0"
  using assms
  by (simp_all add: isl_val_eq_def isl_val_ne_def val_tests)

text \<open>
  Claim C10.  For two non-\<open>NULL\<close> values of which at least one is NaN, each of
  \<open>isl_val_eq\<close>, \<open>isl_val_ne\<close>, \<open>isl_val_lt\<close>, \<open>isl_val_le\<close>, \<open>isl_val_gt\<close>
  and \<open>isl_val_ge\<close> returns 0: NaN is neither equal to nor different from anything,
  itself included, and \<open>isl_val_ne\<close> is not the negation of \<open>isl_val_eq\<close>.
\<close>

theorem nan_compares_to_nothing:
  assumes "isl_val_is_nan (Some v1) = 1 \<or> isl_val_is_nan (Some v2) = 1"
  shows "isl_val_eq (Some v1) (Some v2) = 0 \<and> isl_val_ne (Some v1) (Some v2) = 0 \<and>
         isl_val_lt (Some v1) (Some v2) = 0 \<and> isl_val_le (Some v1) (Some v2) = 0 \<and>
         isl_val_gt (Some v1) (Some v2) = 0 \<and> isl_val_ge (Some v1) (Some v2) = 0"
proof -
  from assms consider "val_n v1 = 0 \<and> val_d v1 = 0" | "val_n v2 = 0 \<and> val_d v2 = 0"
    by (auto simp add: is_nan_Some)
  then show ?thesis
  proof cases
    case 1
    then show ?thesis
      by (simp add: cmp_nan_left isl_val_gt_def isl_val_ge_def)
  next
    case 2
    then show ?thesis
      by (simp add: cmp_nan_left cmp_nan_right isl_val_gt_def isl_val_ge_def)
  qed
qed

theorem nan_compares_to_nothing_witness:
  "isl_val_eq isl_val_nan isl_val_nan = 0 \<and> isl_val_ne isl_val_nan isl_val_nan = 0 \<and>
   isl_val_lt isl_val_nan isl_val_one = 0 \<and> isl_val_le isl_val_nan isl_val_one = 0 \<and>
   isl_val_gt isl_val_one isl_val_nan = 0 \<and> isl_val_ge isl_val_one isl_val_nan = 0"
  using nan_compares_to_nothing [of "\<lparr>val_n = 0, val_d = 0\<rparr>" "\<lparr>val_n = 0, val_d = 0\<rparr>"]
    nan_compares_to_nothing [of "\<lparr>val_n = 0, val_d = 0\<rparr>" "\<lparr>val_n = 1, val_d = 1\<rparr>"]
    nan_compares_to_nothing [of "\<lparr>val_n = 1, val_d = 1\<rparr>" "\<lparr>val_n = 0, val_d = 0\<rparr>"]
  by (simp add: val_consts is_nan_Some)

subsection \<open>NaN at the arithmetic operations\<close>

lemma arith_nan_left:
  assumes "val_n v1 = 0" "val_d v1 = 0"
  shows "isl_val_add (Some v1) (Some v2) = isl_val_nan"
    and "isl_val_sub (Some v1) (Some v2) = isl_val_nan"
    and "isl_val_mul (Some v1) (Some v2) = isl_val_nan"
    and "isl_val_div (Some v1) (Some v2) = isl_val_nan"
    and "isl_val_min (Some v1) (Some v2) = isl_val_nan"
    and "isl_val_max (Some v1) (Some v2) = isl_val_nan"
    and "isl_val_mod (Some v1) (Some v2) = Inr None"
    and "isl_val_gcd (Some v1) (Some v2) = None"
  using assms
  by (simp_all add: isl_val_eq_fields isl_val_nan_def isl_val_add_def isl_val_sub_def
      isl_val_mul_def isl_val_div_def isl_val_min_def isl_val_max_def isl_val_mod_def
      isl_val_gcd_def isl_val_is_nan_def isl_val_is_int_def c_int_def)

lemma arith_nan_right:
  assumes "val_n v2 = 0" "val_d v2 = 0"
  shows "isl_val_add (Some v1) (Some v2) = isl_val_nan"
    and "isl_val_sub (Some v1) (Some v2) = isl_val_nan"
    and "isl_val_mul (Some v1) (Some v2) = isl_val_nan"
    and "isl_val_div (Some v1) (Some v2) = isl_val_nan"
    and "isl_val_min (Some v1) (Some v2) = isl_val_nan"
    and "isl_val_max (Some v1) (Some v2) = isl_val_nan"
    and "isl_val_mod (Some v1) (Some v2) = Inr None"
    and "isl_val_gcd (Some v1) (Some v2) = None"
  using assms
  by (simp_all add: isl_val_eq_fields isl_val_nan_def isl_val_add_def isl_val_sub_def
      isl_val_mul_def isl_val_div_def isl_val_min_def isl_val_max_def isl_val_mod_def
      isl_val_gcd_def isl_val_is_nan_def isl_val_is_int_def c_int_def)

text \<open>
  Claim C6, as the code has it.  When at least one of two non-\<open>NULL\<close> operands is
  NaN, \<open>isl_val_add\<close>, \<open>isl_val_sub\<close>, \<open>isl_val_mul\<close>, \<open>isl_val_div\<close>,
  \<open>isl_val_min\<close> and \<open>isl_val_max\<close> return NaN, whereas \<open>isl_val_mod\<close> and
  \<open>isl_val_gcd\<close>, which expect two integers, reject the NaN operand and return
  \<open>NULL\<close>.
\<close>

theorem nan_absorbs_or_is_rejected:
  assumes "isl_val_is_nan (Some v1) = 1 \<or> isl_val_is_nan (Some v2) = 1"
  shows "isl_val_add (Some v1) (Some v2) = isl_val_nan \<and>
         isl_val_sub (Some v1) (Some v2) = isl_val_nan \<and>
         isl_val_mul (Some v1) (Some v2) = isl_val_nan \<and>
         isl_val_div (Some v1) (Some v2) = isl_val_nan \<and>
         isl_val_min (Some v1) (Some v2) = isl_val_nan \<and>
         isl_val_max (Some v1) (Some v2) = isl_val_nan \<and>
         isl_val_mod (Some v1) (Some v2) = Inr None \<and>
         isl_val_gcd (Some v1) (Some v2) = None"
proof -
  from assms consider "val_n v1 = 0 \<and> val_d v1 = 0" | "val_n v2 = 0 \<and> val_d v2 = 0"
    by (auto simp add: is_nan_Some)
  then show ?thesis
  proof cases
    case 1
    then show ?thesis by (simp add: arith_nan_left)
  next
    case 2
    then show ?thesis by (simp add: arith_nan_right)
  qed
qed

theorem nan_absorbs_or_is_rejected_witness:
  "isl_val_add isl_val_nan isl_val_one = isl_val_nan \<and>
   isl_val_sub isl_val_one isl_val_nan = isl_val_nan \<and>
   isl_val_mul isl_val_nan isl_val_one = isl_val_nan \<and>
   isl_val_div isl_val_one isl_val_nan = isl_val_nan \<and>
   isl_val_min isl_val_nan isl_val_one = isl_val_nan \<and>
   isl_val_max isl_val_one isl_val_nan = isl_val_nan \<and>
   isl_val_mod isl_val_nan isl_val_one = Inr None \<and>
   isl_val_gcd isl_val_one isl_val_nan = None"
  using nan_absorbs_or_is_rejected [of "\<lparr>val_n = 0, val_d = 0\<rparr>" "\<lparr>val_n = 1, val_d = 1\<rparr>"]
    nan_absorbs_or_is_rejected [of "\<lparr>val_n = 1, val_d = 1\<rparr>" "\<lparr>val_n = 0, val_d = 0\<rparr>"]
  by (simp add: val_consts is_nan_Some)

text \<open>
  Claim C6 as stated fails for \<open>isl_val_mod\<close> and \<open>isl_val_gcd\<close>: with a NaN operand
  they return \<open>NULL\<close>, which is not the NaN value.
\<close>

theorem mod_gcd_of_nan_is_null:
  "isl_val_is_nan isl_val_nan = 1 \<and>
   isl_val_mod isl_val_nan isl_val_one = Inr None \<and> Inr None \<noteq> Inr isl_val_nan \<and>
   isl_val_gcd isl_val_one isl_val_nan = None \<and> None \<noteq> isl_val_nan"
  by (simp add: isl_val_mod_def isl_val_gcd_def val_consts isl_val_is_int_def
      isl_val_is_nan_def c_int_def)

subsection \<open>Division at the special values\<close>

lemma div_by_zero_is_nan:
  assumes "\<not> (val_n x = 0 \<and> val_d x = 0)" "val_n z = 0" "val_d z \<noteq> 0"
  shows "isl_val_div (Some x) (Some z) = isl_val_nan"
  using assms
  by (simp add: isl_val_div_def isl_val_set_nan_def val_tests isl_val_nan_def)

lemma div_infty_infty_is_nan:
  assumes "val_n x \<noteq> 0" "val_d x = 0" "val_n w \<noteq> 0" "val_d w = 0"
  shows "isl_val_div (Some x) (Some w) = isl_val_nan"
  using assms
  by (simp add: isl_val_div_def isl_val_set_nan_def val_tests isl_val_nan_def)

lemma div_finite_infty:
  assumes "val_d v \<noteq> 0" "val_n w \<noteq> 0" "val_d w = 0"
  shows "isl_val_div (Some v) (Some w) =
           (if val_n v = 0 then Some v else Some \<lparr>val_n = 0, val_d = 1\<rparr>)"
proof -
  have inf: "0 < val_n w \<or> val_n w < 0"
    using assms(2) by linarith
  show ?thesis
    using assms inf
    by (simp add: isl_val_div_def isl_val_set_zero_def isl_val_set_si_def val_tests
        isl_val_eq_fields)
qed

lemma canonical_zero: "canonical v \<Longrightarrow> val_n v = 0 \<Longrightarrow> val_d v \<noteq> 0 \<Longrightarrow> val_d v = 1"
  by (auto simp add: canonical_def)

text \<open>
  Claim C7.  For every non-NaN \<open>x\<close>, \<open>isl_val_div x 0\<close> is NaN; an infinity divided
  by an infinity is NaN; and a finite rational \<open>v\<close> divided by an infinity is zero: the
  result satisfies \<open>isl_val_is_zero\<close>, and it is the integer zero \<open>0/1\<close> whenever \<open>v\<close>
  is in canonical form.
\<close>

theorem isl_val_div_special_values:
  "(isl_val_is_nan (Some x) = 0 \<and> isl_val_is_zero (Some z) = 1 \<longrightarrow>
      isl_val_div (Some x) (Some z) = isl_val_nan) \<and>
   ((isl_val_is_infty (Some y) = 1 \<or> isl_val_is_neginfty (Some y) = 1) \<and>
    (isl_val_is_infty (Some w) = 1 \<or> isl_val_is_neginfty (Some w) = 1) \<longrightarrow>
      isl_val_div (Some y) (Some w) = isl_val_nan) \<and>
   (isl_val_is_rat (Some v) = 1 \<and>
    (isl_val_is_infty (Some w) = 1 \<or> isl_val_is_neginfty (Some w) = 1) \<longrightarrow>
      isl_val_is_zero (isl_val_div (Some v) (Some w)) = 1 \<and>
      (canonical v \<longrightarrow> isl_val_div (Some v) (Some w) = isl_val_zero))"
proof (intro conjI impI)
  assume "isl_val_is_nan (Some x) = 0 \<and> isl_val_is_zero (Some z) = 1"
  then show "isl_val_div (Some x) (Some z) = isl_val_nan"
    by (simp add: val_tests div_by_zero_is_nan)
next
  assume "(isl_val_is_infty (Some y) = 1 \<or> isl_val_is_neginfty (Some y) = 1) \<and>
          (isl_val_is_infty (Some w) = 1 \<or> isl_val_is_neginfty (Some w) = 1)"
  then have "val_n y \<noteq> 0 \<and> val_d y = 0 \<and> val_n w \<noteq> 0 \<and> val_d w = 0"
    by (auto simp add: val_tests)
  then show "isl_val_div (Some y) (Some w) = isl_val_nan"
    by (simp add: div_infty_infty_is_nan)
next
  assume a: "isl_val_is_rat (Some v) = 1 \<and>
             (isl_val_is_infty (Some w) = 1 \<or> isl_val_is_neginfty (Some w) = 1)"
  then have w: "val_d v \<noteq> 0" "val_n w \<noteq> 0" "val_d w = 0"
    by (auto simp add: val_tests)
  show "isl_val_is_zero (isl_val_div (Some v) (Some w)) = 1"
    using w by (simp add: div_finite_infty val_tests)
  assume "canonical v"
  then show "isl_val_div (Some v) (Some w) = isl_val_zero"
    using w canonical_zero [of v]
    by (simp add: div_finite_infty val_consts isl_val_eq_fields)
qed

theorem isl_val_div_special_values_witness:
  "isl_val_div (isl_val_int_from_si 5) isl_val_zero = isl_val_nan \<and>
   isl_val_div isl_val_infty isl_val_zero = isl_val_nan \<and>
   isl_val_div isl_val_infty isl_val_neginfty = isl_val_nan \<and>
   isl_val_div isl_val_neginfty isl_val_neginfty = isl_val_nan \<and>
   isl_val_div (Some \<lparr>val_n = 3, val_d = 7\<rparr>) isl_val_neginfty = isl_val_zero \<and>
   isl_val_div (isl_val_int_from_si 5) isl_val_infty = isl_val_zero"
proof -
  have g: "gcd (3::int) 7 = 1"
    by code_simp
  show ?thesis
  using g
    isl_val_div_special_values [of "\<lparr>val_n = 5, val_d = 1\<rparr>" "\<lparr>val_n = 0, val_d = 1\<rparr>"
      "\<lparr>val_n = 1, val_d = 0\<rparr>" "\<lparr>val_n = - 1, val_d = 0\<rparr>" "\<lparr>val_n = 3, val_d = 7\<rparr>"]
    isl_val_div_special_values [of "\<lparr>val_n = 1, val_d = 0\<rparr>" "\<lparr>val_n = 0, val_d = 1\<rparr>"
      "\<lparr>val_n = - 1, val_d = 0\<rparr>" "\<lparr>val_n = 1, val_d = 0\<rparr>" "\<lparr>val_n = 5, val_d = 1\<rparr>"]
    isl_val_div_special_values [of "\<lparr>val_n = 1, val_d = 0\<rparr>" "\<lparr>val_n = 0, val_d = 1\<rparr>"
      "\<lparr>val_n = - 1, val_d = 0\<rparr>" "\<lparr>val_n = - 1, val_d = 0\<rparr>" "\<lparr>val_n = 5, val_d = 1\<rparr>"]
  by (simp add: val_consts val_tests canonical_def)
qed

subsection \<open>Canonical form is preserved\<close>


lemma canonical_iff:
  "canonical v \<longleftrightarrow> val_d v = 0 \<or> (0 < val_d v \<and> gcd (val_n v) (val_d v) = 1)"
  by (auto simp add: canonical_def)

lemma canonical_reduced:
  fixes a b :: int
  assumes "0 < b"
  shows "0 < b div gcd a b \<and> gcd (a div gcd a b) (b div gcd a b) = 1"
proof -
  have g: "0 < gcd a b"
    using assms by (simp add: gcd_pos_int)
  have "gcd a b dvd b"
    by simp
  then have "gcd a b \<le> b"
    using assms by (rule zdvd_imp_le)
  then have "0 < b div gcd a b"
    using g by (simp add: pos_imp_zdiv_pos_iff)
  moreover have "coprime (a div gcd a b) (b div gcd a b)"
    using assms by (intro div_gcd_coprime) simp
  ultimately show ?thesis
    by (simp add: coprime_iff_gcd_eq_1)
qed

lemma canonical_normalize: "canonical_ptr (isl_val_normalize (Some v))"
proof -
  consider "val_d v = 1" | "val_d v = 0" | "0 < val_d v" "val_d v \<noteq> 1" | "val_d v < 0"
    by linarith
  then show ?thesis
  proof cases
    case 1
    then show ?thesis
      by (simp add: isl_val_normalize_def canonical_ptr_def canonical_iff val_tests)
  next
    case 2
    then show ?thesis
      by (simp add: isl_val_normalize_def canonical_ptr_def canonical_iff val_tests)
  next
    case 3
    then show ?thesis
      using canonical_reduced [of "val_d v" "val_n v"]
      by (simp add: isl_val_normalize_def canonical_ptr_def canonical_iff val_tests
          isl_int_divexact_def Let_def)
  next
    case 4
    then show ?thesis
      using canonical_reduced [of "- val_d v" "- val_n v"]
      by (simp add: isl_val_normalize_def canonical_ptr_def canonical_iff val_tests
          isl_int_divexact_def Let_def)
  qed
qed

lemma canonical_ptr_Some: "canonical_ptr (Some v) = canonical v"
  by (simp add: canonical_ptr_def)

lemma canonical_ptr_None: "canonical_ptr None"
  by (simp add: canonical_ptr_def)

lemma canonical_consts:
  "canonical_ptr isl_val_zero" "canonical_ptr isl_val_one" "canonical_ptr isl_val_nan"
  "canonical_ptr isl_val_infty" "canonical_ptr isl_val_neginfty"
  "canonical_ptr (isl_val_int_from_si i)" "canonical_ptr (isl_val_int_from_ui u)"
  "canonical_ptr (isl_val_int_from_isl_int i)"
  by (simp_all add: val_consts isl_val_int_from_ui_def isl_val_int_from_isl_int_def
      canonical_ptr_def canonical_iff)

lemma canonical_set:
  "canonical_ptr (isl_val_set_nan p)" "canonical_ptr (isl_val_set_si p i)"
  "canonical_ptr (isl_val_set_zero p)"
  by (cases p; simp add: isl_val_set_nan_def isl_val_set_si_def isl_val_set_zero_def
      canonical_ptr_def canonical_iff val_tests)+

lemma canonical_neg: "canonical v \<Longrightarrow> canonical_ptr (isl_val_neg (Some v))"
  by (auto simp add: isl_val_neg_def canonical_ptr_def canonical_iff val_tests)

lemma canonical_abs: "canonical v \<Longrightarrow> canonical_ptr (isl_val_abs (Some v))"
  using canonical_neg [of v]
  by (simp add: isl_val_abs_def canonical_ptr_Some)

lemma canonical_round:
  "canonical v \<Longrightarrow> canonical_ptr (isl_val_floor (Some v))"
  "canonical v \<Longrightarrow> canonical_ptr (isl_val_ceil (Some v))"
  "canonical v \<Longrightarrow> canonical_ptr (isl_val_trunc (Some v))"
  by (simp_all add: isl_val_floor_def isl_val_ceil_def isl_val_trunc_def canonical_ptr_def
      canonical_iff val_tests)

lemma canonical_min_max:
  "canonical v1 \<Longrightarrow> canonical v2 \<Longrightarrow> canonical_ptr (isl_val_min (Some v1) (Some v2))"
  "canonical v1 \<Longrightarrow> canonical v2 \<Longrightarrow> canonical_ptr (isl_val_max (Some v1) (Some v2))"
  by (simp_all add: isl_val_min_def isl_val_max_def canonical_ptr_Some)

lemma canonical_add:
  "canonical v1 \<Longrightarrow> canonical v2 \<Longrightarrow> canonical_ptr (isl_val_add (Some v1) (Some v2))"
  using canonical_set(1) [of "Some v1"]
  by (simp add: isl_val_add_def canonical_normalize canonical_ptr_Some)
     (simp add: canonical_iff val_tests)

lemma canonical_sub:
  "canonical v1 \<Longrightarrow> canonical v2 \<Longrightarrow> canonical_ptr (isl_val_sub (Some v1) (Some v2))"
  using canonical_set(1) [of "Some v1"] canonical_neg [of v2]
  by (simp add: isl_val_sub_def canonical_normalize canonical_ptr_Some)
     (simp add: canonical_iff val_tests)

lemma canonical_mul:
  "canonical v1 \<Longrightarrow> canonical v2 \<Longrightarrow> canonical_ptr (isl_val_mul (Some v1) (Some v2))"
  using canonical_set(1) [of "Some v1"] canonical_neg [of v2] canonical_neg [of v1]
  by (simp add: isl_val_mul_def canonical_normalize canonical_ptr_Some)
     (simp add: canonical_iff val_tests)

lemma canonical_div:
  "canonical v1 \<Longrightarrow> canonical v2 \<Longrightarrow> canonical_ptr (isl_val_div (Some v1) (Some v2))"
  using canonical_set(1) [of "Some v1"] canonical_set(3) [of "Some v1"] canonical_neg [of v1]
  by (simp add: isl_val_div_def canonical_normalize canonical_ptr_Some)

lemma gcd_add_multiple:
  fixes a b k :: int
  shows "gcd (a + b * k) b = gcd a b" and "gcd (a - b * k) b = gcd a b"
proof -
  show "gcd (a + b * k) b = gcd a b"
    by (metis gcd.commute gcd_add_mult add.commute mult.commute)
  then show "gcd (a - b * k) b = gcd a b"
    by (metis gcd.commute gcd_add_mult add.commute mult.commute diff_add_cancel)
qed

lemma canonical_ui:
  "canonical v1 \<Longrightarrow> canonical_ptr (isl_val_add_ui (Some v1) u)"
  "canonical v1 \<Longrightarrow> canonical_ptr (isl_val_sub_ui (Some v1) u)"
  "canonical v1 \<Longrightarrow> canonical_ptr (isl_val_mul_ui (Some v1) u)"
  using canonical_set(1) [of "Some v1"]
    apply (simp_all add: isl_val_add_ui_def isl_val_sub_ui_def isl_val_mul_ui_def
      canonical_normalize canonical_ptr_Some)
   apply (auto simp add: canonical_iff val_tests gcd_add_multiple)
  done


lemma normalized_rat_Some:
  "normalized_rat (Some v) \<longleftrightarrow> 0 < val_d v \<and> gcd (val_n v) (val_d v) = 1"
  by (simp add: normalized_rat_def)

lemma normalized_rat_normalize:
  assumes "val_d v \<noteq> 0"
  shows "normalized_rat (isl_val_normalize (Some v))"
proof -
  from assms consider "val_d v = 1" | "0 < val_d v" "val_d v \<noteq> 1" | "val_d v < 0"
    by linarith
  then show ?thesis
  proof cases
    case 1
    then show ?thesis
      by (simp add: isl_val_normalize_def normalized_rat_Some val_tests)
  next
    case 2
    then show ?thesis
      using canonical_reduced [of "val_d v" "val_n v"]
      by (simp add: isl_val_normalize_def normalized_rat_Some val_tests
          isl_int_divexact_def Let_def)
  next
    case 3
    then show ?thesis
      using canonical_reduced [of "- val_d v" "- val_n v"]
      by (simp add: isl_val_normalize_def normalized_rat_Some val_tests
          isl_int_divexact_def Let_def)
  qed
qed

lemma normalized_rat_arith:
  assumes "canonical v1" "canonical v2" "val_d v1 \<noteq> 0" "val_d v2 \<noteq> 0"
  shows "normalized_rat (isl_val_add (Some v1) (Some v2))"
    and "normalized_rat (isl_val_sub (Some v1) (Some v2))"
    and "normalized_rat (isl_val_mul (Some v1) (Some v2))"
    and "val_n v2 \<noteq> 0 \<Longrightarrow> normalized_rat (isl_val_div (Some v1) (Some v2))"
proof -
  have c: "0 < val_d v1" "gcd (val_n v1) (val_d v1) = 1"
          "0 < val_d v2" "gcd (val_n v2) (val_d v2) = 1"
    using assms by (simp_all add: canonical_iff)
  have z: "val_n v1 = 0 \<Longrightarrow> val_d v1 = 1" "val_n v2 = 0 \<Longrightarrow> val_d v2 = 1"
    using c by simp_all
  show "normalized_rat (isl_val_add (Some v1) (Some v2))"
    using c z assms(3,4)
    by (simp add: isl_val_add_def normalized_rat_normalize val_tests)
       (auto simp add: normalized_rat_Some)
  show "normalized_rat (isl_val_sub (Some v1) (Some v2))"
    using c z assms(3,4)
    by (simp add: isl_val_sub_def isl_val_neg_def normalized_rat_normalize val_tests)
       (auto simp add: normalized_rat_Some)
  show "normalized_rat (isl_val_mul (Some v1) (Some v2))"
    using c z assms(3,4)
    by (simp add: isl_val_mul_def normalized_rat_normalize val_tests)
       (auto simp add: normalized_rat_Some)
  show "normalized_rat (isl_val_div (Some v1) (Some v2))" if "val_n v2 \<noteq> 0"
    using c z assms(3,4) that
    by (simp add: isl_val_div_def normalized_rat_normalize val_tests)
       (auto simp add: normalized_rat_Some)
qed


lemma canonical_valI: "p \<noteq> None \<Longrightarrow> canonical_ptr p \<Longrightarrow> canonical_val p"
  by (cases p) (simp_all add: canonical_val_def canonical_ptr_def)

lemma normalize_not_null:
  "isl_val_normalize (Some v) \<noteq> None" "\<exists>y. isl_val_normalize (Some v) = Some y"
  by (simp_all add: isl_val_normalize_def Let_def)

lemma val_not_null:
  fixes u :: "'a::len word"
  shows "isl_val_zero \<noteq> None" "isl_val_one \<noteq> None" "isl_val_nan \<noteq> None"
    "isl_val_infty \<noteq> None" "isl_val_neginfty \<noteq> None"
    "isl_val_int_from_si i \<noteq> None" "isl_val_int_from_ui u \<noteq> None"
    "isl_val_int_from_isl_int i \<noteq> None" "isl_val_rat_from_isl_int i j \<noteq> None"
    "isl_val_set_nan (Some v1) \<noteq> None" "isl_val_set_si (Some v1) i \<noteq> None"
    "isl_val_set_zero (Some v1) \<noteq> None" "isl_val_normalize (Some v1) \<noteq> None"
    "isl_val_neg (Some v1) \<noteq> None" "isl_val_abs (Some v1) \<noteq> None"
    "isl_val_floor (Some v1) \<noteq> None" "isl_val_ceil (Some v1) \<noteq> None"
    "isl_val_trunc (Some v1) \<noteq> None"
    "isl_val_min (Some v1) (Some v2) \<noteq> None" "isl_val_max (Some v1) (Some v2) \<noteq> None"
    "isl_val_add (Some v1) (Some v2) \<noteq> None" "isl_val_sub (Some v1) (Some v2) \<noteq> None"
    "isl_val_mul (Some v1) (Some v2) \<noteq> None" "isl_val_div (Some v1) (Some v2) \<noteq> None"
    "isl_val_add_ui (Some v1) u \<noteq> None" "isl_val_sub_ui (Some v1) u \<noteq> None"
    "isl_val_mul_ui (Some v1) u \<noteq> None"
  by (simp_all add: val_consts isl_val_int_from_ui_def isl_val_int_from_isl_int_def
      isl_val_rat_from_isl_int_def isl_val_set_nan_def isl_val_set_si_def isl_val_set_zero_def
      normalize_not_null isl_val_neg_def isl_val_abs_def isl_val_floor_def isl_val_ceil_def
      isl_val_trunc_def isl_val_min_def isl_val_max_def isl_val_add_def isl_val_sub_def
      isl_val_mul_def isl_val_div_def isl_val_add_ui_def isl_val_sub_ui_def isl_val_mul_ui_def)

lemma canonical_int_ops:
  assumes "val_d v1 = 1" and "val_d v2 = 1"
  shows "canonical_val (isl_val_gcd (Some v1) (Some v2))"
    and "val_n v2 \<noteq> 0 \<Longrightarrow> \<exists>r. isl_val_mod (Some v1) (Some v2) = Inr r \<and> canonical_val r"
  using assms
  by (simp_all add: isl_val_gcd_def isl_val_mod_def canonical_val_def canonical_iff val_tests)

lemma rat_from_isl_int_canonical:
  "canonical_val (isl_val_rat_from_isl_int i j) = canonical \<lparr>val_n = i, val_d = j\<rparr>"
  by (simp add: isl_val_rat_from_isl_int_def canonical_val_def)

lemma rat_from_isl_int_normalize:
  "canonical_val (isl_val_normalize (isl_val_rat_from_isl_int i j))"
  unfolding isl_val_rat_from_isl_int_def
  by (rule canonical_valI) (simp_all add: normalize_not_null canonical_normalize)

lemma isl_val_2exp_result:
  "isl_val_2exp k (Some v) =
     (if val_d v = 1 \<and> \<bar>val_n v\<bar> < 2 ^ k
      then (if val_n v < 0 then Some \<lparr>val_n = 1, val_d = 2 ^ nat (- val_n v)\<rparr>
            else Some \<lparr>val_n = 2 ^ nat (val_n v), val_d = 1\<rparr>)
      else None)"
  by (cases v) (auto simp add: isl_val_2exp_def val_tests Let_def)

lemma isl_val_2exp_canonical:
  "canonical_val (isl_val_2exp k (Some v)) = (isl_val_is_int (Some v) = 1 \<and> \<bar>val_n v\<bar> < 2 ^ k)"
  "\<not> (isl_val_is_int (Some v) = 1 \<and> \<bar>val_n v\<bar> < 2 ^ k) \<Longrightarrow> isl_val_2exp k (Some v) = None"
  by (auto simp add: isl_val_2exp_result canonical_val_def canonical_iff val_tests)

lemma not_int_ops:
  assumes "\<not> (isl_val_is_int (Some v1) = 1 \<and> isl_val_is_int (Some v2) = 1)"
  shows "isl_val_gcd (Some v1) (Some v2) = None"
    and "isl_val_mod (Some v1) (Some v2) = Inr None"
    and "isl_val_gcdext ge (Some v1) (Some v2) wx wy = (None, None, None)"
  using assms
  by (auto simp add: isl_val_gcd_def isl_val_mod_def isl_val_gcdext_def val_tests)

lemma int_mod_zero:
  assumes "val_d v1 = 1" and "val_d v2 = 1" and "val_n v2 = 0"
  shows "isl_val_mod (Some v1) (Some v2) = Inl DivByZero"
  using assms
  by (simp add: isl_val_mod_def val_tests isl_val_lt_def c_int_def)

lemma int_gcdext:
  assumes "val_d v1 = 1" and "val_d v2 = 1"
  shows "case isl_val_gcdext ge (Some v1) (Some v2) wx wy of
           (g, x, y) \<Rightarrow> canonical_val g \<and> (if wx then canonical_val x else x = None) \<and>
                       (if wy then canonical_val y else y = None)"
  using assms canonical_int_ops(1) [of v1 v2]
  by (auto simp add: isl_val_gcdext_def canonical_val_def canonical_iff val_tests
      split: prod.splits)


text \<open>
  Claim C8, as amended.  Canonical form is an invariant of the value type for every
  operation that returns a value.  On arguments in canonical form, the constants, the
  constructors from an integer, \<open>isl_val_set_nan\<close>, \<open>isl_val_set_si\<close>,
  \<open>isl_val_set_zero\<close>, \<open>isl_val_normalize\<close>, the negation, the absolute value, the
  roundings, the minimum and maximum and the four arithmetic operations, also with an
  unsigned operand, return a non-\<open>NULL\<close> value in canonical form.  The constructor
  \<open>isl_val_rat_from_isl_int\<close> stores the pair it is given, which is canonical exactly
  when the pair is, and is canonical once \<open>isl_val_normalize\<close> has been applied.
  \<open>isl_val_2exp\<close> returns a canonical value exactly for an integer whose magnitude fits
  an \<open>unsigned long\<close> of \<open>k\<close> bits, and \<open>NULL\<close> otherwise.  On two integers
  \<open>isl_val_gcd\<close>, \<open>isl_val_mod\<close> by a modulus other than zero and \<open>isl_val_gcdext\<close>
  (in \<open>g\<close> and in the cofactors asked for) return canonical values; when an operand is
  not an integer they return \<open>NULL\<close>.  (By the integer zero \<open>isl_val_mod\<close> divides by
  zero in the big-integer library.)  The sum, difference and product of two canonical
  rationals, and their quotient when the divisor is not zero, are fully normalized:
  positive denominator, numerator and denominator coprime.
\<close>

theorem canonical_form_preserved:
  fixes u :: "'a::len word"
  assumes "canonical v1" and "canonical v2"
  shows
    "canonical_val isl_val_zero \<and> canonical_val isl_val_one \<and> canonical_val isl_val_nan \<and>
     canonical_val isl_val_infty \<and> canonical_val isl_val_neginfty \<and>
     canonical_val (isl_val_int_from_si i) \<and> canonical_val (isl_val_int_from_ui u) \<and>
     canonical_val (isl_val_int_from_isl_int i) \<and>
     canonical_val (isl_val_rat_from_isl_int i j) = canonical \<lparr>val_n = i, val_d = j\<rparr> \<and>
     canonical_val (isl_val_normalize (isl_val_rat_from_isl_int i j)) \<and>
     canonical_val (isl_val_set_nan (Some v1)) \<and> canonical_val (isl_val_set_si (Some v1) i) \<and>
     canonical_val (isl_val_set_zero (Some v1)) \<and>
     canonical_val (isl_val_normalize (Some v1)) \<and>
     canonical_val (isl_val_neg (Some v1)) \<and> canonical_val (isl_val_abs (Some v1)) \<and>
     canonical_val (isl_val_floor (Some v1)) \<and> canonical_val (isl_val_ceil (Some v1)) \<and>
     canonical_val (isl_val_trunc (Some v1)) \<and>
     canonical_val (isl_val_min (Some v1) (Some v2)) \<and>
     canonical_val (isl_val_max (Some v1) (Some v2)) \<and>
     canonical_val (isl_val_add (Some v1) (Some v2)) \<and>
     canonical_val (isl_val_sub (Some v1) (Some v2)) \<and>
     canonical_val (isl_val_mul (Some v1) (Some v2)) \<and>
     canonical_val (isl_val_div (Some v1) (Some v2)) \<and>
     canonical_val (isl_val_add_ui (Some v1) u) \<and>
     canonical_val (isl_val_sub_ui (Some v1) u) \<and>
     canonical_val (isl_val_mul_ui (Some v1) u) \<and>
     canonical_val (isl_val_2exp k (Some v1)) =
       (isl_val_is_int (Some v1) = 1 \<and> \<bar>val_n v1\<bar> < 2 ^ k) \<and>
     (\<not> (isl_val_is_int (Some v1) = 1 \<and> \<bar>val_n v1\<bar> < 2 ^ k) \<longrightarrow>
        isl_val_2exp k (Some v1) = None) \<and>
     (isl_val_is_int (Some v1) = 1 \<and> isl_val_is_int (Some v2) = 1 \<longrightarrow>
        canonical_val (isl_val_gcd (Some v1) (Some v2)) \<and>
        (val_n v2 \<noteq> 0 \<longrightarrow>
           (\<exists>r. isl_val_mod (Some v1) (Some v2) = Inr r \<and> canonical_val r)) \<and>
        (val_n v2 = 0 \<longrightarrow> isl_val_mod (Some v1) (Some v2) = Inl DivByZero) \<and>
        (case isl_val_gcdext ge (Some v1) (Some v2) wx wy of
           (g, x, y) \<Rightarrow> canonical_val g \<and> (if wx then canonical_val x else x = None) \<and>
                       (if wy then canonical_val y else y = None))) \<and>
     (\<not> (isl_val_is_int (Some v1) = 1 \<and> isl_val_is_int (Some v2) = 1) \<longrightarrow>
        isl_val_gcd (Some v1) (Some v2) = None \<and>
        isl_val_mod (Some v1) (Some v2) = Inr None \<and>
        isl_val_gcdext ge (Some v1) (Some v2) wx wy = (None, None, None)) \<and>
     (isl_val_is_rat (Some v1) = 1 \<and> isl_val_is_rat (Some v2) = 1 \<longrightarrow>
        normalized_rat (isl_val_add (Some v1) (Some v2)) \<and>
        normalized_rat (isl_val_sub (Some v1) (Some v2)) \<and>
        normalized_rat (isl_val_mul (Some v1) (Some v2)) \<and>
        (isl_val_is_zero (Some v2) = 0 \<longrightarrow>
           normalized_rat (isl_val_div (Some v1) (Some v2))))"
proof -
  have rat: "normalized_rat (isl_val_add (Some v1) (Some v2)) \<and>
        normalized_rat (isl_val_sub (Some v1) (Some v2)) \<and>
        normalized_rat (isl_val_mul (Some v1) (Some v2)) \<and>
        (isl_val_is_zero (Some v2) = 0 \<longrightarrow>
           normalized_rat (isl_val_div (Some v1) (Some v2)))"
    if "isl_val_is_rat (Some v1) = 1 \<and> isl_val_is_rat (Some v2) = 1"
  proof -
    from that have r: "val_d v1 \<noteq> 0" "val_d v2 \<noteq> 0"
      by (simp_all add: is_rat_Some)
    have "isl_val_is_zero (Some v2) = 0 \<Longrightarrow> val_n v2 \<noteq> 0"
      using r by (simp add: isl_val_is_zero_def c_int_simps)
    then show ?thesis
      using normalized_rat_arith [OF assms r] by simp
  qed
  have ints: "canonical_val (isl_val_gcd (Some v1) (Some v2)) \<and>
        (val_n v2 \<noteq> 0 \<longrightarrow>
           (\<exists>r. isl_val_mod (Some v1) (Some v2) = Inr r \<and> canonical_val r)) \<and>
        (val_n v2 = 0 \<longrightarrow> isl_val_mod (Some v1) (Some v2) = Inl DivByZero) \<and>
        (case isl_val_gcdext ge (Some v1) (Some v2) wx wy of
           (g, x, y) \<Rightarrow> canonical_val g \<and> (if wx then canonical_val x else x = None) \<and>
                       (if wy then canonical_val y else y = None))"
    if "isl_val_is_int (Some v1) = 1 \<and> isl_val_is_int (Some v2) = 1"
    using that canonical_int_ops [of v1 v2] int_mod_zero [of v1 v2]
      int_gcdext [where ge = ge and wx = wx and wy = wy and ?v1.0 = v1 and ?v2.0 = v2]
    by (simp add: is_int_Some)
  have nints: "isl_val_gcd (Some v1) (Some v2) = None \<and>
        isl_val_mod (Some v1) (Some v2) = Inr None \<and>
        isl_val_gcdext ge (Some v1) (Some v2) wx wy = (None, None, None)"
    if "\<not> (isl_val_is_int (Some v1) = 1 \<and> isl_val_is_int (Some v2) = 1)"
    using not_int_ops [OF that] by simp
  have total:
    "canonical_val isl_val_zero \<and> canonical_val isl_val_one \<and> canonical_val isl_val_nan \<and>
     canonical_val isl_val_infty \<and> canonical_val isl_val_neginfty \<and>
     canonical_val (isl_val_int_from_si i) \<and> canonical_val (isl_val_int_from_ui u) \<and>
     canonical_val (isl_val_int_from_isl_int i) \<and>
     canonical_val (isl_val_set_nan (Some v1)) \<and> canonical_val (isl_val_set_si (Some v1) i) \<and>
     canonical_val (isl_val_set_zero (Some v1)) \<and>
     canonical_val (isl_val_normalize (Some v1)) \<and>
     canonical_val (isl_val_neg (Some v1)) \<and> canonical_val (isl_val_abs (Some v1)) \<and>
     canonical_val (isl_val_floor (Some v1)) \<and> canonical_val (isl_val_ceil (Some v1)) \<and>
     canonical_val (isl_val_trunc (Some v1)) \<and>
     canonical_val (isl_val_min (Some v1) (Some v2)) \<and>
     canonical_val (isl_val_max (Some v1) (Some v2)) \<and>
     canonical_val (isl_val_add (Some v1) (Some v2)) \<and>
     canonical_val (isl_val_sub (Some v1) (Some v2)) \<and>
     canonical_val (isl_val_mul (Some v1) (Some v2)) \<and>
     canonical_val (isl_val_div (Some v1) (Some v2)) \<and>
     canonical_val (isl_val_add_ui (Some v1) u) \<and>
     canonical_val (isl_val_sub_ui (Some v1) u) \<and>
     canonical_val (isl_val_mul_ui (Some v1) u)"
    using assms
    by (simp add: canonical_valI val_not_null canonical_consts
        canonical_set canonical_normalize canonical_neg canonical_abs canonical_round
        canonical_min_max canonical_add canonical_sub canonical_mul
        canonical_div canonical_ui)
  show ?thesis
    using total rat ints nints rat_from_isl_int_canonical [of i j]
      rat_from_isl_int_normalize [of i j] isl_val_2exp_canonical [where k = k and v = v1]
    by blast
qed


theorem canonical_form_preserved_witness:
  "canonical \<lparr>val_n = 1, val_d = 2\<rparr> \<and> canonical \<lparr>val_n = 1, val_d = 6\<rparr> \<and>
   isl_val_add (Some \<lparr>val_n = 1, val_d = 2\<rparr>) (Some \<lparr>val_n = 1, val_d = 6\<rparr>) =
     Some \<lparr>val_n = 2, val_d = 3\<rparr> \<and>
   normalized_rat (isl_val_add (Some \<lparr>val_n = 1, val_d = 2\<rparr>) (Some \<lparr>val_n = 1, val_d = 6\<rparr>)) \<and>
   canonical_val (isl_val_add (Some \<lparr>val_n = 1, val_d = 2\<rparr>) (Some \<lparr>val_n = 1, val_d = 6\<rparr>)) \<and>
   normalized_rat (isl_val_div (Some \<lparr>val_n = 1, val_d = 2\<rparr>) (Some \<lparr>val_n = 1, val_d = 6\<rparr>)) \<and>
   isl_val_div (Some \<lparr>val_n = 1, val_d = 2\<rparr>) (Some \<lparr>val_n = 1, val_d = 6\<rparr>) =
     Some \<lparr>val_n = 3, val_d = 1\<rparr> \<and>
   canonical_val (isl_val_normalize (isl_val_rat_from_isl_int 2 4)) \<and>
   isl_val_gcd (Some \<lparr>val_n = 1, val_d = 2\<rparr>) (Some \<lparr>val_n = 1, val_d = 6\<rparr>) = None \<and>
   canonical \<lparr>val_n = 4, val_d = 1\<rparr> \<and> canonical \<lparr>val_n = 6, val_d = 1\<rparr> \<and>
   canonical_val (isl_val_2exp 64 (Some \<lparr>val_n = 4, val_d = 1\<rparr>)) \<and>
   canonical_val (isl_val_gcd (Some \<lparr>val_n = 4, val_d = 1\<rparr>) (Some \<lparr>val_n = 6, val_d = 1\<rparr>)) \<and>
   isl_val_mod (Some \<lparr>val_n = 4, val_d = 1\<rparr>) (Some \<lparr>val_n = 6, val_d = 1\<rparr>) =
     Inr (Some \<lparr>val_n = 4, val_d = 1\<rparr>)"
proof -
  have g: "gcd (8::int) 12 = 4" "gcd (6::int) 2 = 2"
    by code_simp+
  have c: "canonical \<lparr>val_n = 1, val_d = 2\<rparr>" "canonical \<lparr>val_n = 1, val_d = 6\<rparr>"
    by (simp_all add: canonical_def)
  have c': "canonical \<lparr>val_n = 4, val_d = 1\<rparr>" "canonical \<lparr>val_n = 6, val_d = 1\<rparr>"
    by (simp_all add: canonical_def)
  have a: "isl_val_add (Some \<lparr>val_n = 1, val_d = 2\<rparr>) (Some \<lparr>val_n = 1, val_d = 6\<rparr>) =
     Some \<lparr>val_n = 2, val_d = 3\<rparr>"
    using g by (simp add: isl_val_add_def isl_val_normalize_def val_tests isl_int_divexact_def)
  have d: "isl_val_div (Some \<lparr>val_n = 1, val_d = 2\<rparr>) (Some \<lparr>val_n = 1, val_d = 6\<rparr>) =
     Some \<lparr>val_n = 3, val_d = 1\<rparr>"
    using g by (simp add: isl_val_div_def isl_val_normalize_def val_tests isl_int_divexact_def)
  have m: "isl_val_mod (Some \<lparr>val_n = 4, val_d = 1\<rparr>) (Some \<lparr>val_n = 6, val_d = 1\<rparr>) =
     Inr (Some \<lparr>val_n = 4, val_d = 1\<rparr>)"
    by (simp add: isl_val_mod_def val_tests isl_val_lt_def c_int_def)
  show ?thesis
    using c c' a d m
      canonical_form_preserved [OF c, where i = 2 and u = "0::64 word" and j = 4 and k = 0
        and ge = "\<lambda>a b. (1, 0, 0)" and wx = False and wy = False]
      canonical_form_preserved [OF c', where i = 2 and u = "0::64 word" and j = 4 and k = 64
        and ge = "\<lambda>a b. (1, 0, 0)" and wx = False and wy = False]
    by (simp add: val_tests isl_val_is_zero_def c_int_def)
qed

text \<open>
  The claim as it was stated fails: the pair \<open>(2, 4)\<close> is stored as it is, and on
  canonical arguments \<open>isl_val_2exp\<close>, \<open>isl_val_gcd\<close> and \<open>isl_val_mod\<close> return
  \<open>NULL\<close> for the rational \<open>1/2\<close>, while \<open>isl_val_mod\<close> by the integer zero divides
  by zero in the big-integer library and returns nothing.
\<close>

theorem canonical_form_not_preserved:
  "canonical \<lparr>val_n = 1, val_d = 2\<rparr> \<and> canonical \<lparr>val_n = 3, val_d = 1\<rparr> \<and>
   canonical \<lparr>val_n = 0, val_d = 1\<rparr> \<and>
   \<not> canonical_val (isl_val_rat_from_isl_int 2 4) \<and>
   isl_val_2exp 64 (Some \<lparr>val_n = 1, val_d = 2\<rparr>) = None \<and>
   isl_val_gcd (Some \<lparr>val_n = 1, val_d = 2\<rparr>) (Some \<lparr>val_n = 3, val_d = 1\<rparr>) = None \<and>
   isl_val_mod (Some \<lparr>val_n = 1, val_d = 2\<rparr>) (Some \<lparr>val_n = 3, val_d = 1\<rparr>) = Inr None \<and>
   isl_val_mod (Some \<lparr>val_n = 3, val_d = 1\<rparr>) (Some \<lparr>val_n = 0, val_d = 1\<rparr>) = Inl DivByZero"
proof -
  have g: "gcd (2::int) 4 = 2" "gcd (1::int) 2 = 1"
    by code_simp+
  show ?thesis
    using g
    by (simp add: canonical_iff canonical_val_def isl_val_rat_from_isl_int_def
        isl_val_2exp_result isl_val_gcd_def isl_val_mod_def val_tests isl_val_lt_def
        c_int_def)
qed




section \<open>Properties of the engine\<close>

subsection \<open>Infeasibility found while restoring feasibility\<close>

lemma lexmin_pivot_col_loop_skip:
  "\<forall>j \<in> set js. \<not> pivot_candidate tab row j \<Longrightarrow> lexmin_pivot_col_loop tab row col js = Inr col"
  by (induction js) simp_all

lemma lexmin_pivot_col_none:
  assumes "\<forall>j. tab_n_dead tab \<le> j \<and> j < tab_n_col tab \<longrightarrow> \<not> pivot_candidate tab row j"
  shows "lexmin_pivot_col tab row = Inr (tab_n_col tab)"
  unfolding lexmin_pivot_col_def
  by (rule lexmin_pivot_col_loop_skip) (use assms in simp)

text \<open>\<open>lexmin_pivot_col\<close> returns \<open>n_col\<close> exactly when no column is eligible.\<close>

lemma lexmin_col_pair_loop_result:
  "lexmin_col_pair_loop tab row col1 col2 is = Some c \<Longrightarrow> c = col1 \<or> c = col2"
  by (induction "is") (auto simp add: Let_def split: if_splits)

lemma lexmin_pivot_col_loop_found:
  assumes "col \<le> tab_n_col tab" and "\<forall>j \<in> set js. j < tab_n_col tab"
    and "lexmin_pivot_col_loop tab row col js = Inr c"
  shows "c \<le> tab_n_col tab \<and>
         (c = tab_n_col tab \<longleftrightarrow>
            col = tab_n_col tab \<and> (\<forall>j \<in> set js. \<not> pivot_candidate tab row j))"
  using assms
proof (induction js arbitrary: col)
  case Nil
  then show ?case by simp
next
  case (Cons j js)
  show ?case
  proof (cases "pivot_candidate tab row j")
    case False
    then show ?thesis
      using Cons.IH [of col] Cons.prems by simp
  next
    case True
    note cand = this
    show ?thesis
    proof (cases "col = tab_n_col tab")
      case True
      then show ?thesis
        using Cons.IH [of j] Cons.prems cand by auto
    next
      case False
      with Cons.prems cand obtain c' where
        p: "lexmin_col_pair tab row col j = Some c'"
        and l: "lexmin_pivot_col_loop tab row c' js = Inr c"
        by (auto split: option.splits)
      from p have "c' = col \<or> c' = j"
        by (auto simp add: lexmin_col_pair_def dest: lexmin_col_pair_loop_result)
      then have "c' < tab_n_col tab"
        using False Cons.prems by auto
      then show ?thesis
        using Cons.IH [of c'] Cons.prems l cand False by auto
    qed
  qed
qed

lemma lexmin_pivot_col_n_col_iff:
  assumes "lexmin_pivot_col tab row = Inr col"
  shows "tab_n_col tab \<le> col \<longleftrightarrow>
           (\<forall>j. tab_n_dead tab \<le> j \<and> j < tab_n_col tab \<longrightarrow> \<not> pivot_candidate tab row j)"
  using lexmin_pivot_col_loop_found
    [of "tab_n_col tab" tab "[tab_n_dead tab..<tab_n_col tab]" row col] assms
  by (auto simp add: lexmin_pivot_col_def)

lemma restore_lexmin_loop_infeasible:
  assumes "first_neg ops tab = (tab1, Some row)"
    and "lexmin_pivot_col tab1 row = Inr col" and "tab_n_col tab1 \<le> col"
  shows "restore_lexmin_loop ops tab = Some (Inr (isl_tab_mark_empty tab1))"
  using assms by (subst restore_lexmin_loop.simps) simp

lemma restore_lexmin_loop_step:
  assumes "lexmin_step ops tab tab'"
  shows "restore_lexmin_loop ops tab = restore_lexmin_loop ops tab'"
  using assms
proof cases
  case (pivot tab1 row col)
  then show ?thesis
    by (subst restore_lexmin_loop.simps) simp
qed

lemma restore_lexmin_loop_steps:
  assumes "rtranclp (lexmin_step ops) tab tab'"
  shows "restore_lexmin_loop ops tab = restore_lexmin_loop ops tab'"
  using assms
  by (induction rule: rtranclp_induct) (simp_all add: restore_lexmin_loop_step)

lemma tab_empty_mark_empty: "tab_empty (isl_tab_mark_empty tab)"
  by (simp add: isl_tab_mark_empty_def isl_tab_push_def)

lemma find_solutions_loop_leaves_on_empty:
  assumes "\<not> tab_empty tab0" and "body sol0 tab0 = Some (Inr (Continue, sol1, tab))"
    and "restore_lexmin ops tab = Some (Inr tabE)" and "tab_empty tabE"
  shows "find_solutions_loop body ops sol0 tab0 = Some (Inr (sol1, tabE))"
proof -
  have "find_solutions_loop body ops sol1 tabE = Some (Inr (sol1, tabE))"
    using assms(4) by (subst find_solutions_loop.simps) simp
  then show ?thesis
    using assms(1,2,3) by (subst find_solutions_loop.simps) simp
qed

lemma find_solutions_leaf:
  assumes "\<not> tab_empty tab0" and "sol_context_tab sol0 = Some ctx0" and "\<not> tab_empty ctx0"
    and "body sol0 tab0 = Some (Inr (Continue, sol1, tab))"
    and "restore_lexmin ops tab = Some (Inr tabE)" and "tab_empty tabE"
  shows "find_solutions body ops add sol0 tab0 = Some (add sol1 tabE)"
  using assms find_solutions_loop_leaves_on_empty [of tab0 body sol0 sol1 tab ops tabE]
  by (simp add: find_solutions_def)

text \<open>
  Claim C3.  Whenever the loop of \<open>restore_lexmin\<close>, started on a non-empty tableau
  \<open>tab\<close>, has at its head a tableau \<open>tab'\<close> in which \<open>first_neg\<close> finds a violated row
  for which no column is eligible with a positive entry, \<open>lexmin_pivot_col\<close> returns
  \<open>n_col\<close> and \<open>restore_lexmin\<close> returns, as a normal value, the tableau marked empty.
  The driver takes that tableau as a leaf: when a turn of the loop of \<open>find_solutions\<close>
  continues into such a \<open>restore_lexmin\<close>, the loop ends and the empty tableau goes to
  the accumulator, where \<open>sol_for_add\<close> returns the solution unchanged and
  \<open>sol_map_add\<close> runs \<open>add_empty\<close>, which returns the solution unchanged when the
  empty parts are not tracked and otherwise with the context's basic set appended to
  them.
\<close>

theorem infeasibility_is_a_leaf_not_an_error:
  assumes "rtranclp (lexmin_step ops) tab tab'" and "\<not> tab_empty tab"
    and "first_neg ops tab' = (tab1, Some row)"
    and "\<forall>j. tab_n_dead tab1 \<le> j \<and> j < tab_n_col tab1 \<longrightarrow> \<not> pivot_candidate tab1 row j"
  shows
    "lexmin_pivot_col tab1 row = Inr (tab_n_col tab1) \<and>
     restore_lexmin ops tab = Some (Inr (isl_tab_mark_empty tab1)) \<and>
     tab_empty (isl_tab_mark_empty tab1) \<and>
     (\<not> tab_empty tab0 \<and> sol_context_tab sol0 = Some ctx0 \<and> \<not> tab_empty ctx0 \<and>
      body sol0 tab0 = Some (Inr (Continue, sol1, tab)) \<longrightarrow>
        find_solutions body ops (sol_for_add piece_for) sol0 tab0 = Some (Inr sol1) \<and>
        find_solutions body ops (sol_map_add piece_map fs) sol0 tab0 =
          Some (add_empty fs sol1)) \<and>
     (sol_empty sol1 = None \<longrightarrow> add_empty fs sol1 = Inr sol1) \<and>
     (sol_empty sol1 = Some es \<and> sol_context_tab sol1 = Some ctx1 \<and> tab_bset ctx1 = Some b \<longrightarrow>
        add_empty fs sol1 = Inr (sol1\<lparr>sol_empty := Some (es @ [fs b])\<rparr>))"
proof -
  have col: "lexmin_pivot_col tab1 row = Inr (tab_n_col tab1)"
    using assms(4) by (rule lexmin_pivot_col_none)
  have "restore_lexmin_loop ops tab' = Some (Inr (isl_tab_mark_empty tab1))"
    using assms(3) col by (rule restore_lexmin_loop_infeasible) simp
  then have res: "restore_lexmin ops tab = Some (Inr (isl_tab_mark_empty tab1))"
    using assms(1,2) by (simp add: restore_lexmin_def restore_lexmin_loop_steps)
  have leaf: "find_solutions body ops add sol0 tab0 = Some (add sol1 (isl_tab_mark_empty tab1))"
    if "\<not> tab_empty tab0 \<and> sol_context_tab sol0 = Some ctx0 \<and> \<not> tab_empty ctx0 \<and>
        body sol0 tab0 = Some (Inr (Continue, sol1, tab))" for add
    using that res
      find_solutions_leaf [of tab0 sol0 ctx0 body sol1 tab ops "isl_tab_mark_empty tab1" add]
    by (simp add: tab_empty_mark_empty)
  show ?thesis
    using col res leaf [of "sol_for_add piece_for"] leaf [of "sol_map_add piece_map fs"]
    by (simp add: tab_empty_mark_empty sol_for_add_def sol_map_add_def add_empty_def)
qed

lemma first_neg_infeasible_tab:
  "first_neg example_ops infeasible_tab = (infeasible_tab, Some 0)"
  by (simp add: first_neg_def example_ops_def infeasible_tab_def is_obviously_neg_def)

lemma no_pivot_candidate_infeasible_tab:
  "\<forall>j. tab_n_dead infeasible_tab \<le> j \<and> j < tab_n_col infeasible_tab \<longrightarrow>
       \<not> pivot_candidate infeasible_tab 0 j"
  by (simp add: infeasible_tab_def pivot_candidate_def)

theorem infeasibility_is_a_leaf_not_an_error_witness:
  "restore_lexmin example_ops infeasible_tab = Some (Inr (isl_tab_mark_empty infeasible_tab)) \<and>
   tab_empty (isl_tab_mark_empty infeasible_tab) \<and>
   find_solutions (\<lambda>sol tab. Some (Inr (Continue, sol, tab))) example_ops
       (sol_map_add (\<lambda>sol tab. Inl AssertFailed) id)
       \<lparr>sol_context_tab = Some infeasible_tab, sol_map = [], sol_empty = Some [], sol_max = False\<rparr>
       infeasible_tab =
     Some (Inr \<lparr>sol_context_tab = Some infeasible_tab, sol_map = ([] :: unit list),
                sol_empty = Some [()], sol_max = False\<rparr>)"
proof -
  have r: "rtranclp (lexmin_step example_ops) infeasible_tab infeasible_tab"
    by simp
  have e: "\<not> tab_empty infeasible_tab" "tab_bset infeasible_tab = Some ()"
    by (simp_all add: infeasible_tab_def)
  show ?thesis
    using e infeasibility_is_a_leaf_not_an_error
      [OF r e(1) first_neg_infeasible_tab no_pivot_candidate_infeasible_tab,
        of infeasible_tab
          "\<lparr>sol_context_tab = Some infeasible_tab, sol_map = ([] :: unit list),
            sol_empty = Some [], sol_max = False\<rparr>"
          infeasible_tab "\<lambda>sol tab. Some (Inr (Continue, sol, tab))"
          "\<lparr>sol_context_tab = Some infeasible_tab, sol_map = ([] :: unit list),
            sol_empty = Some [], sol_max = False\<rparr>"
          "\<lambda>sol tab. Inl AssertFailed" "\<lambda>sol tab. Inl AssertFailed" id "[]"
          infeasible_tab "()"]
    by simp
qed

subsection \<open>The non-parametric cut\<close>

lemma mat_set_nth:
  "mat_set m i j x ! i' ! j' =
     (if i' = i \<and> j' = j \<and> i < length m \<and> j < length (m ! i) then x else m ! i' ! j')"
  by (cases "i < length m"; cases "j < length (m ! i)")
     (auto simp add: mat_set_def nth_list_update list_update_beyond)

lemma mat_set_length: "length (mat_set m i j x) = length m"
  by (simp add: mat_set_def)

lemma mat_set_row_length: "length (mat_set m i j x ! i') = length (m ! i')"
  by (cases "i < length m") (auto simp add: mat_set_def nth_list_update list_update_beyond)

lemma cut_cols_Suc:
  "cut_cols off ri row (Suc k) m =
     (let m' = cut_cols off ri row k m
      in mat_set m' ri (off + k) (isl_int_fdiv_r (m' ! row ! (off + k)) (m' ! row ! 0)))"
  by (simp add: cut_cols_def Let_def)

lemma cut_cols_shape:
  "length (cut_cols off ri row k m) = length m \<and>
   length (cut_cols off ri row k m ! i') = length (m ! i')"
  by (induction k) (simp_all add: cut_cols_def mat_set_length mat_set_row_length)

lemma cut_cols_nth:
  assumes "ri < length m" and "off + k \<le> length (m ! ri)" and "0 < off"
  shows "cut_cols off ri row k m ! i' ! j =
           (if i' = ri \<and> off \<le> j \<and> j < off + k then (m ! row ! j) mod (m ! row ! 0)
            else m ! i' ! j)"
  using assms(2)
proof (induction k arbitrary: i' j)
  case 0
  then show ?case by (simp add: cut_cols_def)
next
  case (Suc k)
  then have IH: "\<And>i' j. cut_cols off ri row k m ! i' ! j =
           (if i' = ri \<and> off \<le> j \<and> j < off + k then (m ! row ! j) mod (m ! row ! 0)
            else m ! i' ! j)"
    by simp
  have rd: "cut_cols off ri row k m ! row ! (off + k) = m ! row ! (off + k)"
           "cut_cols off ri row k m ! row ! 0 = m ! row ! 0"
    using assms(3) by (simp_all add: IH)
  have len: "ri < length (cut_cols off ri row k m)"
            "off + k < length (cut_cols off ri row k m ! ri)"
    using assms(1) Suc.prems by (simp_all add: cut_cols_shape)
  show ?case
    using len rd
    by (auto simp add: cut_cols_Suc Let_def mat_set_nth IH isl_int_fdiv_r_def)
qed


lemma add_cut_row_nth:
  assumes ri: "ri < length m0" and len: "2 + M + n \<le> length (m0 ! ri)"
  shows "add_cut_row M n m0 ri row ! ri ! 0 = m0 ! row ! 0"
    and "add_cut_row M n m0 ri row ! ri ! 1 = - ((- (m0 ! row ! 1)) mod (m0 ! row ! 0))"
    and "M \<noteq> 0 \<Longrightarrow> add_cut_row M n m0 ri row ! ri ! 2 = 0"
    and "i < n \<Longrightarrow> add_cut_row M n m0 ri row ! ri ! (2 + M + i) =
           (m0 ! row ! (2 + M + i)) mod (m0 ! row ! 0)"
proof -
  define off where "off = 2 + M"
  define m1 where "m1 = mat_set m0 ri 0 (m0 ! row ! 0)"
  define m2 where "m2 = mat_set m1 ri 1 (- (m1 ! row ! 1))"
  define m3 where "m3 = mat_set m2 ri 1 (isl_int_fdiv_r (m2 ! ri ! 1) (m2 ! row ! 0))"
  define m4 where "m4 = mat_set m3 ri 1 (- (m3 ! ri ! 1))"
  define m5 where "m5 = (if M \<noteq> 0 then mat_set m4 ri 2 0 else m4)"
  have cut: "add_cut_row M n m0 ri row = cut_cols off ri row n m5"
    by (simp add: add_cut_row_def cut_cols_def Let_def off_def m1_def m2_def m3_def m4_def
        m5_def)
  have shape: "length m5 = length m0" "length (m5 ! ri) = length (m0 ! ri)"
    by (simp_all add: m1_def m2_def m3_def m4_def m5_def mat_set_length mat_set_row_length)
  have l: "0 < length (m0 ! ri)" "1 < length (m0 ! ri)" "M \<noteq> 0 \<Longrightarrow> 2 < length (m0 ! ri)"
    using len by linarith+
  have e0: "m5 ! ri ! 0 = m0 ! row ! 0" and r0: "m5 ! row ! 0 = m0 ! row ! 0"
    using ri l
    by (simp_all add: m1_def m2_def m3_def m4_def m5_def mat_set_nth mat_set_length
        mat_set_row_length)
  have e1: "m5 ! ri ! 1 = - ((- (m0 ! row ! 1)) mod (m0 ! row ! 0))"
    using ri l
    by (simp add: m1_def m2_def m3_def m4_def m5_def mat_set_nth mat_set_length
        mat_set_row_length isl_int_fdiv_r_def)
  have e2: "M \<noteq> 0 \<Longrightarrow> m5 ! ri ! 2 = 0"
    using ri l
    by (simp add: m1_def m2_def m3_def m4_def m5_def mat_set_nth mat_set_length
        mat_set_row_length)
  have rj: "m5 ! row ! (off + i) = m0 ! row ! (off + i)" for i
    by (simp add: off_def m1_def m2_def m3_def m4_def m5_def mat_set_nth)
  have b: "ri < length m5" "off + n \<le> length (m5 ! ri)" "0 < off"
    using ri len by (simp_all add: shape off_def)
  have nth: "cut_cols off ri row n m5 ! ri ! j =
               (if off \<le> j \<and> j < off + n then (m5 ! row ! j) mod (m5 ! row ! 0)
                else m5 ! ri ! j)" for j
    using cut_cols_nth [OF b, of row ri j] by simp
  have o: "\<not> off \<le> 0" "\<not> off \<le> 1" "M \<noteq> 0 \<Longrightarrow> \<not> off \<le> 2"
    by (simp_all add: off_def)
  show "add_cut_row M n m0 ri row ! ri ! 0 = m0 ! row ! 0"
    using o e0 by (simp add: cut nth)
  show "add_cut_row M n m0 ri row ! ri ! 1 = - ((- (m0 ! row ! 1)) mod (m0 ! row ! 0))"
    using o e1 by (simp add: cut nth)
  show "add_cut_row M n m0 ri row ! ri ! 2 = 0" if "M \<noteq> 0"
    using that o e2 by (simp add: cut nth)
  have "add_cut_row M n m0 ri row ! ri ! (off + i) =
           (m0 ! row ! (off + i)) mod (m0 ! row ! 0)" if "i < n"
    using that by (simp add: cut nth rj r0)
  then show "add_cut_row M n m0 ri row ! ri ! (2 + M + i) =
           (m0 ! row ! (2 + M + i)) mod (m0 ! row ! 0)" if "i < n"
    using that by (simp add: off_def)
qed


lemma integer_coef_mod:
  assumes "integer_coef tab row k" and "\<not> var_is_row (tab_var tab ! k)"
  shows "tab_mat tab ! row ! (2 + tab_M tab + var_index (tab_var tab ! k)) mod
           tab_mat tab ! row ! 0 = 0"
  using assms
  by (simp add: integer_coef_def Let_def isl_int_is_divisible_by_def)

lemma integer_parameter_cols:
  assumes "integer_parameter tab row"
  shows "k < tab_n_param tab \<Longrightarrow> integer_coef tab row k"
    and "i < tab_n_div tab \<Longrightarrow> integer_coef tab row (tab_n_var tab - tab_n_div tab + i)"
  using assms by (simp_all add: integer_parameter_def list_all_iff)

text \<open>
  Claim C4.  Let \<open>add_cut\<close> be called on row \<open>row\<close>, which reads
  \<open>m r = f + \<Sum> a\<^sub>j y\<^sub>j\<close>, let the allocation of the new constraint \<open>r\<close> succeed and
  let its row \<open>ri\<close> lie within the matrix.  Then \<open>add_cut\<close> returns \<open>ri\<close>, and in the
  tableau it returns row \<open>ri\<close> has denominator \<open>m\<close>, constant \<open>-((-f) mod m)\<close>,
  coefficient 0 for the big parameter when it is present, and column coefficients
  \<open>a\<^sub>j mod m\<close>; for \<open>m > 0\<close> each remainder is non-negative and below \<open>m\<close>; when the
  parameter coefficients of the row are all integral, the cut has coefficient 0 in the
  columns of the parameters and divs.  The new constraint is marked \<open>is_nonneg\<close> and,
  when the row-sign array exists, the sign of row \<open>ri\<close> is set to \<open>neg\<close>.
\<close>

theorem add_cut_postcondition:
  fixes ops :: "'b isl_tab_ops"
  defines "ri \<equiv> \<lambda>tab2 r. var_index (tab_con tab2 ! r)"
    and "entry \<equiv> \<lambda>tab row j. tab_mat tab ! row ! j"
  assumes ext: "isl_tab_extend_cons ops tab 1 = Inr tab1"
    and alloc: "isl_tab_allocate_con ops tab1 = Inr (tab2, r)"
    and r: "r < length (tab_con tab2)"
    and ri: "ri tab2 r < length (tab_mat tab2)"
    and len: "2 + tab_M tab2 + tab_n_col tab2 \<le> length (tab_mat tab2 ! ri tab2 r)"
    and m: "entry tab2 row 0 \<noteq> 0"
  shows "\<exists>tab'. add_cut ops tab row = Inr (tab', ri tab2 r) \<and>
     entry tab' (ri tab2 r) 0 = entry tab2 row 0 \<and>
     entry tab' (ri tab2 r) 1 = - ((- entry tab2 row 1) mod entry tab2 row 0) \<and>
     (tab_M tab2 \<noteq> 0 \<longrightarrow> entry tab' (ri tab2 r) 2 = 0) \<and>
     (\<forall>i<tab_n_col tab2. entry tab' (ri tab2 r) (2 + tab_M tab2 + i) =
        entry tab2 row (2 + tab_M tab2 + i) mod entry tab2 row 0) \<and>
     (0 < entry tab2 row 0 \<longrightarrow>
        - entry tab2 row 0 < entry tab' (ri tab2 r) 1 \<and> entry tab' (ri tab2 r) 1 \<le> 0 \<and>
        (\<forall>i<tab_n_col tab2. 0 \<le> entry tab' (ri tab2 r) (2 + tab_M tab2 + i) \<and>
           entry tab' (ri tab2 r) (2 + tab_M tab2 + i) < entry tab2 row 0)) \<and>
     (integer_parameter tab2 row \<longrightarrow>
        (\<forall>k<tab_n_param tab2. \<not> var_is_row (tab_var tab2 ! k) \<and>
           var_index (tab_var tab2 ! k) < tab_n_col tab2 \<longrightarrow>
           entry tab' (ri tab2 r) (2 + tab_M tab2 + var_index (tab_var tab2 ! k)) = 0) \<and>
        (\<forall>i<tab_n_div tab2.
           \<not> var_is_row (tab_var tab2 ! (tab_n_var tab2 - tab_n_div tab2 + i)) \<and>
           var_index (tab_var tab2 ! (tab_n_var tab2 - tab_n_div tab2 + i)) < tab_n_col tab2 \<longrightarrow>
           entry tab' (ri tab2 r)
             (2 + tab_M tab2 +
              var_index (tab_var tab2 ! (tab_n_var tab2 - tab_n_div tab2 + i))) = 0)) \<and>
     var_is_nonneg (tab_con tab' ! r) \<and> ri tab' r = ri tab2 r \<and>
     (tab_row_sign tab2 = None \<longrightarrow> tab_row_sign tab' = None) \<and>
     (\<forall>rs. tab_row_sign tab2 = Some rs \<longrightarrow>
        tab_row_sign tab' = Some (rs[ri tab2 r := isl_tab_row_neg]))"
proof -
  let ?ri = "var_index (tab_con tab2 ! r)"
  let ?m6 = "add_cut_row (tab_M tab2) (tab_n_col tab2) (tab_mat tab2) ?ri row"
  let ?c = "(tab_con tab2)[r := (tab_con tab2 ! r)\<lparr>var_is_nonneg := True\<rparr>]"
  let ?t4 = "tab2\<lparr>tab_mat := ?m6, tab_con := ?c,
                  tab_undo := Undo_var isl_tab_undo_nonneg (Con r) # tab_undo tab2\<rparr>"
  let ?t5 = "case tab_row_sign tab2 of None \<Rightarrow> ?t4
             | Some rs \<Rightarrow> ?t4\<lparr>tab_row_sign := Some (rs[?ri := isl_tab_row_neg])\<rparr>"
  let ?m = "tab_mat tab2 ! row ! 0"
  let ?off = "2 + tab_M tab2"
  have eq: "add_cut ops tab row = Inr (?t5, ?ri)"
    using ext alloc m r
    by (simp add: add_cut_def entry_def Let_def isl_tab_push_var_def split: option.split)
  have f: "tab_mat ?t5 = ?m6" "tab_con ?t5 = ?c"
    by (simp_all split: option.split)
  have s: "tab_row_sign tab2 = None \<longrightarrow> tab_row_sign ?t5 = None"
    "\<forall>rs. tab_row_sign tab2 = Some rs \<longrightarrow>
        tab_row_sign ?t5 = Some (rs[?ri := isl_tab_row_neg])"
    by simp_all
  have c: "var_is_nonneg (?c ! r)" "var_index (?c ! r) = ?ri"
    using r by simp_all
  note e = add_cut_row_nth [OF ri [unfolded ri_def] len [unfolded ri_def], where row = row]
  have cols: "\<forall>i<tab_n_col tab2. ?m6 ! ?ri ! (?off + i) = tab_mat tab2 ! row ! (?off + i) mod ?m"
    using e(4) by blast
  have pos: "- ?m < ?m6 ! ?ri ! 1 \<and> ?m6 ! ?ri ! 1 \<le> 0 \<and>
        (\<forall>i<tab_n_col tab2. 0 \<le> ?m6 ! ?ri ! (?off + i) \<and> ?m6 ! ?ri ! (?off + i) < ?m)"
    if "0 < ?m"
  proof -
    have a: "0 \<le> x mod ?m" "x mod ?m < ?m" for x
      using that by simp_all
    have "- ?m < - ((- (tab_mat tab2 ! row ! 1)) mod ?m) \<and>
          - ((- (tab_mat tab2 ! row ! 1)) mod ?m) \<le> 0"
      using a [of "- (tab_mat tab2 ! row ! 1)"] by linarith
    moreover have "0 \<le> ?m6 ! ?ri ! (?off + i) \<and> ?m6 ! ?ri ! (?off + i) < ?m"
      if "i < tab_n_col tab2" for i
    proof -
      have "?m6 ! ?ri ! (?off + i) = tab_mat tab2 ! row ! (?off + i) mod ?m"
        using cols that by blast
      then show ?thesis
        using a by simp
    qed
    ultimately show ?thesis
      by (simp only: e(2)) blast
  qed
  have z: "?m6 ! ?ri ! (?off + var_index (tab_var tab2 ! k)) = 0"
    if "integer_coef tab2 row k" and "\<not> var_is_row (tab_var tab2 ! k)"
      and "var_index (tab_var tab2 ! k) < tab_n_col tab2" for k
  proof -
    have "?m6 ! ?ri ! (?off + var_index (tab_var tab2 ! k)) =
            tab_mat tab2 ! row ! (?off + var_index (tab_var tab2 ! k)) mod ?m"
      using cols that(3) by blast
    also have "\<dots> = 0"
      using that(1,2) by (rule integer_coef_mod)
    finally show ?thesis .
  qed
  have par: "(\<forall>k<tab_n_param tab2. \<not> var_is_row (tab_var tab2 ! k) \<and>
           var_index (tab_var tab2 ! k) < tab_n_col tab2 \<longrightarrow>
           ?m6 ! ?ri ! (?off + var_index (tab_var tab2 ! k)) = 0) \<and>
        (\<forall>i<tab_n_div tab2.
           \<not> var_is_row (tab_var tab2 ! (tab_n_var tab2 - tab_n_div tab2 + i)) \<and>
           var_index (tab_var tab2 ! (tab_n_var tab2 - tab_n_div tab2 + i)) < tab_n_col tab2 \<longrightarrow>
           ?m6 ! ?ri !
             (?off + var_index (tab_var tab2 ! (tab_n_var tab2 - tab_n_div tab2 + i))) = 0)"
    if "integer_parameter tab2 row"
    using integer_parameter_cols [OF that] z by blast
  define t5 where "t5 = ?t5"
  have m5: "tab_mat t5 = ?m6" and c5: "tab_con t5 = ?c"
    unfolding t5_def by (simp_all add: f)
  have p0: "add_cut ops tab row = Inr (t5, ?ri)"
    unfolding t5_def by (rule eq)
  have p1: "tab_mat t5 ! ?ri ! 0 = ?m"
    and p2: "tab_mat t5 ! ?ri ! 1 = - ((- (tab_mat tab2 ! row ! 1)) mod ?m)"
    and p3: "tab_M tab2 \<noteq> 0 \<longrightarrow> tab_mat t5 ! ?ri ! 2 = 0"
    and p4: "\<forall>i<tab_n_col tab2. tab_mat t5 ! ?ri ! (?off + i) =
               tab_mat tab2 ! row ! (?off + i) mod ?m"
    unfolding m5 using e(1,2,3) cols by blast+
  have p5: "0 < ?m \<longrightarrow>
        - ?m < tab_mat t5 ! ?ri ! 1 \<and> tab_mat t5 ! ?ri ! 1 \<le> 0 \<and>
        (\<forall>i<tab_n_col tab2. 0 \<le> tab_mat t5 ! ?ri ! (?off + i) \<and>
           tab_mat t5 ! ?ri ! (?off + i) < ?m)"
    unfolding m5 using pos by blast
  have p6: "integer_parameter tab2 row \<longrightarrow>
        (\<forall>k<tab_n_param tab2. \<not> var_is_row (tab_var tab2 ! k) \<and>
           var_index (tab_var tab2 ! k) < tab_n_col tab2 \<longrightarrow>
           tab_mat t5 ! ?ri ! (?off + var_index (tab_var tab2 ! k)) = 0) \<and>
        (\<forall>i<tab_n_div tab2.
           \<not> var_is_row (tab_var tab2 ! (tab_n_var tab2 - tab_n_div tab2 + i)) \<and>
           var_index (tab_var tab2 ! (tab_n_var tab2 - tab_n_div tab2 + i)) < tab_n_col tab2 \<longrightarrow>
           tab_mat t5 ! ?ri !
             (?off + var_index (tab_var tab2 ! (tab_n_var tab2 - tab_n_div tab2 + i))) = 0)"
    unfolding m5 using par by blast
  have p7: "var_is_nonneg (tab_con t5 ! r)" and p8: "var_index (tab_con t5 ! r) = ?ri"
    unfolding c5 using c by blast+
  have p9: "tab_row_sign tab2 = None \<longrightarrow> tab_row_sign t5 = None"
    and p10: "\<forall>rs. tab_row_sign tab2 = Some rs \<longrightarrow>
        tab_row_sign t5 = Some (rs[?ri := isl_tab_row_neg])"
    unfolding t5_def using s by blast+
  show ?thesis
    unfolding ri_def entry_def
    by (rule exI [of _ t5]) (intro conjI p0 p1 p2 p3 p4 p5 p6 p7 p8 p9 p10)
qed


theorem add_cut_postcondition_witness:
  "\<exists>t. add_cut example_ops cut_tab 0 = Inr (t, 1) \<and>
       tab_mat t ! 1 ! 0 = 2 \<and> tab_mat t ! 1 ! 1 = - 1 \<and> tab_mat t ! 1 ! 2 = 0 \<and>
       tab_mat t ! 1 ! 3 = 0 \<and> tab_mat t ! 1 ! 4 = 1 \<and>
       var_is_nonneg (tab_con t ! 1) \<and>
       tab_row_sign t = Some [isl_tab_row_unknown, isl_tab_row_neg]"
proof -
  let ?t2 = "cut_tab\<lparr>tab_con := tab_con cut_tab @
                        [\<lparr>var_index = tab_n_row cut_tab, var_is_row = True,
                          var_is_nonneg = False, var_frozen = False\<rparr>],
                      tab_n_row := tab_n_row cut_tab + 1,
                      tab_n_con := tab_n_con cut_tab + 1\<rparr>"
  have ext: "isl_tab_extend_cons example_ops cut_tab 1 = Inr cut_tab"
    by (simp add: example_ops_def)
  have alloc: "isl_tab_allocate_con example_ops cut_tab = Inr (?t2, 1)"
    by (simp add: example_ops_def cut_tab_def)
  have b: "1 < length (tab_con ?t2)" "var_index (tab_con ?t2 ! 1) < length (tab_mat ?t2)"
    "2 + tab_M ?t2 + tab_n_col ?t2 \<le> length (tab_mat ?t2 ! var_index (tab_con ?t2 ! 1))"
    "tab_mat ?t2 ! 0 ! 0 \<noteq> 0"
    by (simp_all add: cut_tab_def)
  have i: "(\<forall>i<2. P i) \<longleftrightarrow> P 0 \<and> P (1::nat)" for P
    by (auto simp add: numeral_2_eq_2 All_less_Suc)
  show ?thesis
    using add_cut_postcondition [OF ext alloc b]
    by (simp add: cut_tab_def i) blast
qed

subsection \<open>Feasibility of the context\<close>



































end
